theory Spec2Isabelle
  imports Main
begin

section \<open>JSON values as JavaScript sees them\<close>

text \<open>
  Request bodies, the answer of the Python service and the \<open>meta\<close> column of
  \<open>chat_messages\<close> are JSON. A JavaScript expression that may be \<open>undefined\<close> is a
  \<open>json option\<close>, with \<open>None\<close> for \<open>undefined\<close>. Numbers are modelled as integers, and
  an object as the list of its properties (keys taken to be distinct).
\<close>

datatype json =
    JNull
  | JBool bool
  | JNum int
  | JStr string
  | JArr "json list"
  | JObj "(string \<times> json) list"

text \<open>JavaScript truthiness, as used by \<open>!x\<close>, \<open>x || y\<close>, \<open>x && y\<close> and \<open>x ? a : b\<close>.\<close>

fun truthy :: "json option \<Rightarrow> bool" where
  "truthy None = False"
| "truthy (Some JNull) = False"
| "truthy (Some (JBool b)) = b"
| "truthy (Some (JNum n)) = (n \<noteq> 0)"
| "truthy (Some (JStr s)) = (s \<noteq> [])"
| "truthy (Some (JArr xs)) = True"
| "truthy (Some (JObj kvs)) = True"

text \<open>Optional chaining \<open>x?.k\<close> for the keys the program reads.\<close>

fun get_prop :: "json option \<Rightarrow> string \<Rightarrow> json option" where
  "get_prop (Some (JObj kvs)) k = map_of kvs k"
| "get_prop x k = None"

text \<open>\<open>a || b\<close>, \<open>a || literal\<close>, \<open>a ?? b\<close> and \<open>a ?? literal\<close>.\<close>

definition js_or :: "json option \<Rightarrow> json option \<Rightarrow> json option" where
  "js_or a b = (if truthy a then a else b)"

definition or_else :: "json option \<Rightarrow> json \<Rightarrow> json" where
  "or_else a dflt = (case a of None \<Rightarrow> dflt | Some v \<Rightarrow> if truthy (Some v) then v else dflt)"

definition js_nullish :: "json option \<Rightarrow> json option \<Rightarrow> json option" where
  "js_nullish a b = (case a of None \<Rightarrow> b | Some JNull \<Rightarrow> b | Some v \<Rightarrow> Some v)"

definition nullish_else :: "json option \<Rightarrow> json \<Rightarrow> json" where
  "nullish_else a dflt = (case a of None \<Rightarrow> dflt | Some JNull \<Rightarrow> dflt | Some v \<Rightarrow> v)"

text \<open>A string that may be missing is truthy when it is present and not empty.\<close>

definition truthy_str :: "string option \<Rightarrow> bool" where
  "truthy_str s = (case s of None \<Rightarrow> False | Some x \<Rightarrow> x \<noteq> [])"


section \<open>The database of \<open>database/schema.sql\<close>\<close>

datatype appt_status = Pending | Confirmed | Completed | Cancelled | No_show

record appointment =
  appt_id :: nat
  appt_user_id :: nat
  scheduled_at :: int
  status :: appt_status
  appointment_type :: string
  duration_minutes :: nat
  appt_notes :: string
  created_at :: int

record user_row =
  user_id :: nat
  email :: string
  password_hash :: string
  name :: string

record chat_session =
  cs_id :: nat
  cs_user_id :: nat
  session_token :: string

record chat_message =
  cm_user_id :: nat
  cm_session_token :: string
  cm_role :: string
  cm_content :: json
  cm_meta :: json

text \<open>
  A table is the list of its rows in insertion order; a \<open>SERIAL\<close> column draws its value
  from the table's sequence.
\<close>

datatype db_error = ConnectionError | UniqueViolation | NotNullViolation | InvalidDatetime

text \<open>The places of \<open>server.js\<close> that await \<open>query(...)\<close> in the chatbot routes.\<close>

datatype query_site =
    Q_upsertUser
  | Q_findSession
  | Q_insertSession
  | Q_logUserMessage
  | Q_logAssistantReply
  | Q_logDecline
  | Q_conflictCheck
  | Q_insertAppointment
  | Q_logConfirmation
  | Q_selectMessages

text \<open>
  The last field is not a table: \<open>statements\<close> records, in order, the queries that were
  sent to the database, so that a theorem can say which statements a handler reached.
\<close>

record db =
  users :: "user_row list"
  users_id_seq :: nat
  chat_sessions :: "chat_session list"
  chat_sessions_id_seq :: nat
  chat_messages :: "chat_message list"
  appointments :: "appointment list"
  appointments_id_seq :: nat
  statements :: "query_site list"

text \<open>
  What a request handler takes from outside the repository's code:
  \<^item> \<open>faults\<close>: the awaited queries that the database rejects for a reason of its own
    (connection lost, a constraint not modelled below);
  \<^item> \<open>js_trim\<close>: \<open>String.prototype.trim\<close>, which strips the white space and line
    terminators of Unicode from both ends;
  \<^item> \<open>js_Date\<close>: \<open>new Date(s).getTime()\<close>, \<open>None\<close> when it is \<open>NaN\<close>;
  \<^item> \<open>js_now\<close>: \<open>new Date()\<close> when the handler validates;
  \<^item> \<open>toLocaleString\<close>: \<open>new Date(s).toLocaleString()\<close>;
  \<^item> \<open>pg_timestamp\<close>: PostgreSQL's reading of a text parameter as \<open>TIMESTAMP\<close>,
    \<open>None\<close> when it raises;
  \<^item> \<open>pg_now\<close>: \<open>NOW()\<close>; \<open>pg_json\<close>: a \<open>TIMESTAMP\<close> of a returned row as it is
    serialised in the response.
\<close>

record env =
  faults :: "query_site \<Rightarrow> bool"
  js_trim :: "string \<Rightarrow> string"
  js_Date :: "string \<Rightarrow> int option"
  js_now :: int
  toLocaleString :: "string \<Rightarrow> string"
  pg_timestamp :: "string \<Rightarrow> int option"
  pg_now :: int
  pg_json :: "int \<Rightarrow> string"

text \<open>
  \<open>await query(text, params)\<close> at a given place: the statement is recorded; it is
  rejected before the database runs it, or the database runs it and gives a result or an
  error of its own, with the database it leaves.
\<close>

definition query ::
  "env \<Rightarrow> query_site \<Rightarrow> db \<Rightarrow> (db \<Rightarrow> (db_error + 'a) \<times> db) \<Rightarrow> (db_error + 'a) \<times> db" where
  "query ev site d stmt =
     (let d' = d\<lparr>statements := statements d @ [site]\<rparr>
      in if faults ev site then (Inl ConnectionError, d') else stmt d')"

subsection \<open>The SQL statements\<close>

text \<open>
  \<open>INSERT INTO users ... ON CONFLICT (email) DO UPDATE SET name = EXCLUDED.name RETURNING id\<close>
\<close>

definition sql_upsert_user :: "string \<Rightarrow> string \<Rightarrow> db \<Rightarrow> (db_error + nat) \<times> db" where
  "sql_upsert_user e n d =
     (case find (\<lambda>u. email u = e) (users d) of
        Some u \<Rightarrow>
          (Inr (user_id u),
           d\<lparr>users := map (\<lambda>x. if email x = e then x\<lparr>name := n\<rparr> else x) (users d),
             users_id_seq := Suc (users_id_seq d)\<rparr>)
      | None \<Rightarrow>
          (Inr (users_id_seq d),
           d\<lparr>users := users d @
                 [\<lparr>user_id = users_id_seq d, email = e, password_hash = ''hash_demo'',
                   name = n\<rparr>],
             users_id_seq := Suc (users_id_seq d)\<rparr>))"

text \<open>\<open>SELECT id FROM chat_sessions WHERE session_token = $1\<close>, first row.\<close>

definition sql_find_session :: "string \<Rightarrow> db \<Rightarrow> (db_error + nat option) \<times> db" where
  "sql_find_session tok d =
     (Inr (map_option cs_id (find (\<lambda>s. session_token s = tok) (chat_sessions d))), d)"

text \<open>\<open>INSERT INTO chat_sessions (user_id, session_token) VALUES ($1, $2) RETURNING id\<close>\<close>

definition sql_insert_session :: "nat \<Rightarrow> string \<Rightarrow> db \<Rightarrow> (db_error + nat) \<times> db" where
  "sql_insert_session uid tok d =
     (Inr (chat_sessions_id_seq d),
      d\<lparr>chat_sessions := chat_sessions d @
            [\<lparr>cs_id = chat_sessions_id_seq d, cs_user_id = uid, session_token = tok\<rparr>],
        chat_sessions_id_seq := Suc (chat_sessions_id_seq d)\<rparr>)"

text \<open>
  \<open>INSERT INTO chat_messages (user_id, session_token, role, content, meta)\<close>; the column
  \<open>session_token\<close> is \<open>NOT NULL\<close>, and an \<open>undefined\<close> parameter is sent as \<open>NULL\<close>.
\<close>

definition sql_insert_chat_message ::
  "nat \<Rightarrow> string option \<Rightarrow> string \<Rightarrow> json \<Rightarrow> json \<Rightarrow> db \<Rightarrow> (db_error + unit) \<times> db" where
  "sql_insert_chat_message uid tok r c m d =
     (case tok of
        None \<Rightarrow> (Inl NotNullViolation, d)
      | Some t \<Rightarrow>
          (Inr (),
           d\<lparr>chat_messages := chat_messages d @
                 [\<lparr>cm_user_id = uid, cm_session_token = t, cm_role = r,
                   cm_content = c, cm_meta = m\<rparr>]\<rparr>))"

text \<open>
  \<open>SELECT role, content, meta, created_at FROM chat_messages WHERE user_id = $1 AND
  session_token = $2 ORDER BY created_at ASC\<close>: the rows of the session, taken to come
  in the order of their insertion.
\<close>

definition session_rows :: "db \<Rightarrow> nat \<Rightarrow> string \<Rightarrow> chat_message list" where
  "session_rows d userId sid =
     filter (\<lambda>m. cm_user_id m = userId \<and> cm_session_token m = sid) (chat_messages d)"

definition sql_select_messages ::
  "nat \<Rightarrow> string \<Rightarrow> db \<Rightarrow> (db_error + chat_message list) \<times> db" where
  "sql_select_messages userId sid d = (Inr (session_rows d userId sid), d)"

text \<open>
  \<open>SELECT id, user_id FROM appointments WHERE scheduled_at = $1 AND status = 'confirmed'
  LIMIT 1\<close>; the result is its \<open>rowCount\<close>.
\<close>

definition sql_conflict_check :: "env \<Rightarrow> string \<Rightarrow> db \<Rightarrow> (db_error + nat) \<times> db" where
  "sql_conflict_check ev s d =
     (case pg_timestamp ev s of
        None \<Rightarrow> (Inl InvalidDatetime, d)
      | Some t \<Rightarrow>
          (Inr (length (take 1
                  (filter (\<lambda>a. scheduled_at a = t \<and> status a = Confirmed) (appointments d)))),
           d))"

text \<open>
  The keys of \<open>CREATE UNIQUE INDEX uniq_confirmed_appointments ON appointments
  (scheduled_at) WHERE status = 'confirmed'\<close>, and the property the index keeps.
\<close>

definition confirmed_keys :: "appointment list \<Rightarrow> int list" where
  "confirmed_keys xs = map scheduled_at (filter (\<lambda>a. status a = Confirmed) xs)"

definition uniq_confirmed_appointments :: "appointment list \<Rightarrow> bool" where
  "uniq_confirmed_appointments xs = distinct (confirmed_keys xs)"

text \<open>
  \<open>INSERT INTO appointments (user_id, scheduled_at, status, notes) VALUES ($1, $2,
  'confirmed', 'Booked via AI chatbot') RETURNING id, scheduled_at, status, created_at\<close>.
  The database raises a unique violation when the index already holds the key; the row
  it rejects has drawn its \<open>id\<close> from the sequence, which does not go back.
\<close>

definition sql_insert_appointment ::
  "env \<Rightarrow> nat \<Rightarrow> string \<Rightarrow> db \<Rightarrow> (db_error + appointment) \<times> db" where
  "sql_insert_appointment ev uid s d =
     (case pg_timestamp ev s of
        None \<Rightarrow> (Inl InvalidDatetime, d)
      | Some t \<Rightarrow>
          if t \<in> set (confirmed_keys (appointments d))
          then (Inl UniqueViolation, d\<lparr>appointments_id_seq := Suc (appointments_id_seq d)\<rparr>)
          else
            let row = \<lparr>appt_id = appointments_id_seq d, appt_user_id = uid, scheduled_at = t,
                       status = Confirmed, appointment_type = ''general_checkup'',
                       duration_minutes = 60, appt_notes = ''Booked via AI chatbot'',
                       created_at = pg_now ev\<rparr>
            in (Inr row, d\<lparr>appointments := appointments d @ [row],
                           appointments_id_seq := Suc (appointments_id_seq d)\<rparr>))"


section \<open>\<open>server.js\<close>: database helper functions\<close>

text \<open>\<open>upsertUser(sub)\<close>: logs and rethrows a failure of its query.\<close>

definition upsertUser :: "env \<Rightarrow> db \<Rightarrow> string \<Rightarrow> (db_error + nat) \<times> db" where
  "upsertUser ev d sub =
     query ev Q_upsertUser d (sql_upsert_user (sub @ ''@demo.local'') ''Demo User'')"

text \<open>\<open>ensureSession(userId, sessionToken)\<close>: \<open>null\<close> without a token, the found id, or a new row.\<close>

definition ensureSession ::
  "env \<Rightarrow> db \<Rightarrow> nat \<Rightarrow> string option \<Rightarrow> (db_error + nat option) \<times> db" where
  "ensureSession ev d userId sessionToken =
     (case sessionToken of
        None \<Rightarrow> (Inr None, d)
      | Some tok \<Rightarrow>
          if tok = [] then (Inr None, d)
          else
            (case query ev Q_findSession d (sql_find_session tok) of
               (Inl e, d1) \<Rightarrow> (Inl e, d1)
             | (Inr (Some sid), d1) \<Rightarrow> (Inr (Some sid), d1)
             | (Inr None, d1) \<Rightarrow>
                 (case query ev Q_insertSession d1 (sql_insert_session userId tok) of
                    (Inl e, d2) \<Rightarrow> (Inl e, d2)
                  | (Inr sid, d2) \<Rightarrow> (Inr (Some sid), d2))))"

text \<open>
  \<open>logMessage({userId, sessionToken, role, content, meta})\<close>: the \<open>catch\<close> logs the error
  to the console and does not rethrow, so a failed insert leaves the table as it was and
  the caller goes on.
\<close>

definition logMessage ::
  "env \<Rightarrow> query_site \<Rightarrow> db \<Rightarrow> nat \<Rightarrow> string option \<Rightarrow> string \<Rightarrow> json \<Rightarrow> json \<Rightarrow> db" where
  "logMessage ev site d userId sessionToken r c m =
     (case query ev site d (sql_insert_chat_message userId sessionToken r c m) of
        (Inl e, d') \<Rightarrow> d'
      | (Inr u, d') \<Rightarrow> d')"

definition sub_or_default :: "string option \<Rightarrow> string" where
  "sub_or_default s = (if truthy_str s then (case s of Some x \<Rightarrow> x | None \<Rightarrow> ''user_1'') else ''user_1'')"

record response =
  http_status :: nat
  body :: json


section \<open>\<open>server.js\<close>: \<open>POST /api/chatbot/message\<close>\<close>

text \<open>
  The request after \<open>legacyAuth\<close>: \<open>req.user?.sub\<close> and the two fields of the body.
\<close>

record message_request =
  mr_sub :: "string option"
  mr_message :: "json option"
  mr_session_id :: "string option"

text \<open>
  What \<open>fetch(PY_SERVICE_URL/simulate)\<close> and \<open>pythonResponse.json()\<close> give: the fetch
  rejects, the status is not ok, the body is not JSON, or the parsed body.
\<close>

datatype py_reply = Py_unreachable | Py_not_ok nat | Py_bad_json | Py_json json

definition bad_message :: response where
  "bad_message =
     \<lparr>http_status = 400,
      body = JObj [(''error'', JStr ''Message is required and must be a non-empty string'')]\<rparr>"

definition message_failed :: response where
  "message_failed =
     \<lparr>http_status = 500,
      body = JObj [(''error'', JStr ''Failed to process message''),
                   (''message'', JStr ''Unable to reach AI service. Please try again later.'')]\<rparr>"

definition message_ok :: "json \<Rightarrow> response" where
  "message_ok data = \<lparr>http_status = 200, body = JObj [(''ok'', JBool True), (''data'', data)]\<rparr>"

text \<open>The assistant turn's content and metadata, read from the service's answer.\<close>

definition assistantReply :: "json \<Rightarrow> json" where
  "assistantReply data =
     or_else (js_or (get_prop (Some data) ''reply'')
                    (get_prop (get_prop (Some data) ''data'') ''reply''))
             (JStr ''I apologize, I could not process that request.'')"

definition appointmentCandidate :: "json \<Rightarrow> json option" where
  "appointmentCandidate data =
     js_or (get_prop (Some data) ''appointment_candidate'')
           (get_prop (get_prop (Some data) ''data'') ''appointment_candidate'')"

definition intent_of :: "json \<Rightarrow> json" where
  "intent_of data =
     or_else (js_or (get_prop (Some data) ''intent'')
                    (get_prop (get_prop (Some data) ''data'') ''intent''))
             (JStr ''chat'')"

definition needsConfirmation :: "json \<Rightarrow> json" where
  "needsConfirmation data =
     nullish_else (js_nullish (get_prop (Some data) ''needs_confirmation'')
                              (get_prop (get_prop (Some data) ''data'') ''needs_confirmation''))
                  (JBool False)"

definition assistant_meta :: "json \<Rightarrow> json" where
  "assistant_meta data =
     (case appointmentCandidate data of
        Some c \<Rightarrow>
          if truthy (Some c)
          then JObj [(''appointment_candidate'', c), (''intent'', intent_of data),
                     (''needs_confirmation'', needsConfirmation data)]
          else JObj [(''intent'', intent_of data)]
      | None \<Rightarrow> JObj [(''intent'', intent_of data)])"

text \<open>
  The handler. A response and the database it leaves: nothing is rolled back when a
  later step throws, each query having been its own statement.
\<close>

definition message_handler :: "env \<Rightarrow> py_reply \<Rightarrow> db \<Rightarrow> message_request \<Rightarrow> response \<times> db" where
  "message_handler ev py d rq =
     (case mr_message rq of
        Some (JStr message) \<Rightarrow>
          if message = [] \<or> js_trim ev message = [] then (bad_message, d)
          else
            (case upsertUser ev d (sub_or_default (mr_sub rq)) of
               (Inl e, d1) \<Rightarrow> (message_failed, d1)
             | (Inr userId, d1) \<Rightarrow>
                 (case ensureSession ev d1 userId (mr_session_id rq) of
                    (Inl e, d2) \<Rightarrow> (message_failed, d2)
                  | (Inr sid, d2) \<Rightarrow>
                      let d3 = logMessage ev Q_logUserMessage d2 userId (mr_session_id rq)
                                 ''user'' (JStr (js_trim ev message)) (JObj [])
                      in (case py of
                            Py_json data \<Rightarrow>
                              (message_ok data,
                               logMessage ev Q_logAssistantReply d3 userId (mr_session_id rq)
                                 ''assistant'' (assistantReply data) (assistant_meta data))
                          | _ \<Rightarrow> (message_failed, d3))))
      | _ \<Rightarrow> (bad_message, d))"


section \<open>\<open>server.js\<close>: \<open>POST /api/chatbot/confirm\<close>\<close>

record confirm_request =
  cr_sub :: "string option"
  cr_session_id :: "string option"
  cr_scheduled_at :: "string option"
  cr_confirm :: "json option"

definition bad_request :: "string \<Rightarrow> response" where
  "bad_request msg =
     \<lparr>http_status = 400,
      body = JObj [(''ok'', JBool False), (''error'', JStr ''bad_request''), (''message'', JStr msg)]\<rparr>"

definition conflict :: response where
  "conflict =
     \<lparr>http_status = 409,
      body = JObj [(''ok'', JBool False), (''error'', JStr ''conflict''),
                   (''message'', JStr ''That time slot is already booked. Please select a different time.'')]\<rparr>"

definition server_error :: response where
  "server_error =
     \<lparr>http_status = 500,
      body = JObj [(''ok'', JBool False), (''error'', JStr ''server_error''),
                   (''message'', JStr ''Failed to process appointment confirmation'')]\<rparr>"

definition declined :: response where
  "declined = \<lparr>http_status = 200, body = JObj [(''ok'', JBool True), (''status'', JStr ''declined'')]\<rparr>"

definition confirmed :: "env \<Rightarrow> appointment \<Rightarrow> string \<Rightarrow> response" where
  "confirmed ev a s =
     \<lparr>http_status = 200,
      body = JObj [(''ok'', JBool True), (''status'', JStr ''confirmed''),
                   (''appointment'',
                    JObj [(''id'', JNum (int (appt_id a))),
                          (''scheduled_at'', JStr (pg_json ev (scheduled_at a))),
                          (''status'', JStr ''confirmed''),
                          (''created_at'', JStr (pg_json ev (created_at a))),
                          (''formatted_time'', JStr (toLocaleString ev s))])]\<rparr>"

definition decline_content :: json where
  "decline_content =
     JStr (''Appointment declined. Please let me know when you'' @ [CHR 0x27] @
           ''d like to schedule instead.'')"

definition decline_meta :: "string \<Rightarrow> json" where
  "decline_meta s = JObj [(''action'', JStr ''declined''), (''proposed_time'', JStr s)]"

definition confirm_content :: "env \<Rightarrow> string \<Rightarrow> json" where
  "confirm_content ev s =
     JStr ([CHR 0xE2, CHR 0x9C, CHR 0x85] @ '' Appointment confirmed for '' @
           toLocaleString ev s @ ''.'')"

definition confirm_meta :: "appointment \<Rightarrow> json" where
  "confirm_meta a =
     JObj [(''appointment_id'', JNum (int (appt_id a))), (''status'', JStr ''confirmed''),
           (''action'', JStr ''confirmed'')]"

text \<open>
  The three validations at the head of the handler: \<open>Inl\<close> is the 400 response they
  return, \<open>Inr\<close> the \<open>scheduled_at\<close> string they let through.
\<close>

definition validate_confirm :: "env \<Rightarrow> confirm_request \<Rightarrow> response + string" where
  "validate_confirm ev rq =
     (if \<not> truthy_str (cr_session_id rq) \<or> \<not> truthy_str (cr_scheduled_at rq)
      then Inl (bad_request ''Both session_id and scheduled_at are required'')
      else
        (case cr_scheduled_at rq of
           None \<Rightarrow> Inl (bad_request ''Both session_id and scheduled_at are required'')
         | Some s \<Rightarrow>
             (case js_Date ev s of
                None \<Rightarrow> Inl (bad_request ''scheduled_at must be a valid ISO8601 datetime string'')
              | Some appointmentTime \<Rightarrow>
                  if appointmentTime \<le> js_now ev
                  then Inl (bad_request ''Appointment time must be in the future'')
                  else Inr s)))"

definition confirm_handler :: "env \<Rightarrow> db \<Rightarrow> confirm_request \<Rightarrow> response \<times> db" where
  "confirm_handler ev d rq =
     (case validate_confirm ev rq of
        Inl resp \<Rightarrow> (resp, d)
      | Inr s \<Rightarrow>
          (case upsertUser ev d (sub_or_default (cr_sub rq)) of
             (Inl e, d1) \<Rightarrow> (server_error, d1)
           | (Inr userId, d1) \<Rightarrow>
               (case ensureSession ev d1 userId (cr_session_id rq) of
                  (Inl e, d2) \<Rightarrow> (server_error, d2)
                | (Inr sid, d2) \<Rightarrow>
                    if \<not> truthy (cr_confirm rq)
                    then (declined,
                          logMessage ev Q_logDecline d2 userId (cr_session_id rq)
                            ''assistant'' decline_content (decline_meta s))
                    else
                      (case query ev Q_conflictCheck d2 (sql_conflict_check ev s) of
                         (Inl e, d3) \<Rightarrow> (server_error, d3)
                       | (Inr rowCount, d3) \<Rightarrow>
                           if rowCount > 0 then (conflict, d3)
                           else
                             (case query ev Q_insertAppointment d3
                                     (sql_insert_appointment ev userId s) of
                                (Inl e, d4) \<Rightarrow> (server_error, d4)
                              | (Inr appointment, d4) \<Rightarrow>
                                  (confirmed ev appointment s,
                                   logMessage ev Q_logConfirmation d4 userId (cr_session_id rq)
                                     ''assistant'' (confirm_content ev s)
                                     (confirm_meta appointment)))))))"


section \<open>\<open>server.js\<close>: the two handlers between their awaits\<close>

text \<open>
  Requests are handled concurrently: a handler runs until it awaits a query or the fetch,
  and another handler may run before it resumes. A program counter names the place where
  a handler is suspended, with the local variables that are live there; \<open>step\<close> resumes
  the handler and runs it up to its next await, whose statement the database executes
  atomically.
\<close>

datatype request =
    Message_request py_reply message_request
  | Confirm_request confirm_request

datatype pc =
    At_start
  | M_ensureSession string nat
  | M_insertSession string nat
  | M_logUser string nat
  | M_fetch string nat
  | M_logAssistant json nat
  | C_ensureSession string nat
  | C_insertSession string nat
  | C_branch string nat
  | C_insertAppointment string nat
  | C_logConfirmation string appointment nat
  | Finished response

text \<open>The message handler: validation and \<open>upsertUser\<close>, then one await at a time.\<close>

fun message_step :: "env \<Rightarrow> py_reply \<Rightarrow> message_request \<Rightarrow> pc \<Rightarrow> db \<Rightarrow> pc \<times> db" where
  "message_step ev py rq At_start d =
     (case mr_message rq of
        Some (JStr message) \<Rightarrow>
          if message = [] \<or> js_trim ev message = [] then (Finished bad_message, d)
          else
            (case upsertUser ev d (sub_or_default (mr_sub rq)) of
               (Inl e, d1) \<Rightarrow> (Finished message_failed, d1)
             | (Inr userId, d1) \<Rightarrow> (M_ensureSession message userId, d1))
      | _ \<Rightarrow> (Finished bad_message, d))"
| "message_step ev py rq (M_ensureSession message userId) d =
     (if \<not> truthy_str (mr_session_id rq) then (M_logUser message userId, d)
      else
        (case mr_session_id rq of
           None \<Rightarrow> (M_logUser message userId, d)
         | Some tok \<Rightarrow>
             (case query ev Q_findSession d (sql_find_session tok) of
                (Inl e, d1) \<Rightarrow> (Finished message_failed, d1)
              | (Inr (Some sid), d1) \<Rightarrow> (M_logUser message userId, d1)
              | (Inr None, d1) \<Rightarrow> (M_insertSession message userId, d1))))"
| "message_step ev py rq (M_insertSession message userId) d =
     (case mr_session_id rq of
        None \<Rightarrow> (M_logUser message userId, d)
      | Some tok \<Rightarrow>
          (case query ev Q_insertSession d (sql_insert_session userId tok) of
             (Inl e, d1) \<Rightarrow> (Finished message_failed, d1)
           | (Inr sid, d1) \<Rightarrow> (M_logUser message userId, d1)))"
| "message_step ev py rq (M_logUser message userId) d =
     (M_fetch message userId,
      logMessage ev Q_logUserMessage d userId (mr_session_id rq)
        ''user'' (JStr (js_trim ev message)) (JObj []))"
| "message_step ev py rq (M_fetch message userId) d =
     (case py of
        Py_json data \<Rightarrow> (M_logAssistant data userId, d)
      | _ \<Rightarrow> (Finished message_failed, d))"
| "message_step ev py rq (M_logAssistant data userId) d =
     (Finished (message_ok data),
      logMessage ev Q_logAssistantReply d userId (mr_session_id rq)
        ''assistant'' (assistantReply data) (assistant_meta data))"
| "message_step ev py rq p d = (p, d)"

text \<open>The confirm handler: the three validations and \<open>upsertUser\<close>, then one await at a time.\<close>

fun confirm_step :: "env \<Rightarrow> confirm_request \<Rightarrow> pc \<Rightarrow> db \<Rightarrow> pc \<times> db" where
  "confirm_step ev rq At_start d =
     (case validate_confirm ev rq of
        Inl resp \<Rightarrow> (Finished resp, d)
      | Inr s \<Rightarrow>
          (case upsertUser ev d (sub_or_default (cr_sub rq)) of
             (Inl e, d1) \<Rightarrow> (Finished server_error, d1)
           | (Inr userId, d1) \<Rightarrow> (C_ensureSession s userId, d1)))"
| "confirm_step ev rq (C_ensureSession s userId) d =
     (if \<not> truthy_str (cr_session_id rq) then (C_branch s userId, d)
      else
        (case cr_session_id rq of
           None \<Rightarrow> (C_branch s userId, d)
         | Some tok \<Rightarrow>
             (case query ev Q_findSession d (sql_find_session tok) of
                (Inl e, d1) \<Rightarrow> (Finished server_error, d1)
              | (Inr (Some sid), d1) \<Rightarrow> (C_branch s userId, d1)
              | (Inr None, d1) \<Rightarrow> (C_insertSession s userId, d1))))"
| "confirm_step ev rq (C_insertSession s userId) d =
     (case cr_session_id rq of
        None \<Rightarrow> (C_branch s userId, d)
      | Some tok \<Rightarrow>
          (case query ev Q_insertSession d (sql_insert_session userId tok) of
             (Inl e, d1) \<Rightarrow> (Finished server_error, d1)
           | (Inr sid, d1) \<Rightarrow> (C_branch s userId, d1)))"
| "confirm_step ev rq (C_branch s userId) d =
     (if \<not> truthy (cr_confirm rq)
      then (Finished declined,
            logMessage ev Q_logDecline d userId (cr_session_id rq)
              ''assistant'' decline_content (decline_meta s))
      else
        (case query ev Q_conflictCheck d (sql_conflict_check ev s) of
           (Inl e, d1) \<Rightarrow> (Finished server_error, d1)
         | (Inr rowCount, d1) \<Rightarrow>
             if rowCount > 0 then (Finished conflict, d1)
             else (C_insertAppointment s userId, d1)))"
| "confirm_step ev rq (C_insertAppointment s userId) d =
     (case query ev Q_insertAppointment d (sql_insert_appointment ev userId s) of
        (Inl e, d1) \<Rightarrow> (Finished server_error, d1)
      | (Inr appointment, d1) \<Rightarrow> (C_logConfirmation s appointment userId, d1))"
| "confirm_step ev rq (C_logConfirmation s appointment userId) d =
     (Finished (confirmed ev appointment s),
      logMessage ev Q_logConfirmation d userId (cr_session_id rq)
        ''assistant'' (confirm_content ev s) (confirm_meta appointment))"
| "confirm_step ev rq p d = (p, d)"

definition step :: "env \<Rightarrow> request \<Rightarrow> pc \<Rightarrow> db \<Rightarrow> pc \<times> db" where
  "step ev r p d =
     (case r of
        Message_request py rq \<Rightarrow> message_step ev py rq p d
      | Confirm_request rq \<Rightarrow> confirm_step ev rq p d)"

text \<open>
  The requests in flight, each with the environment it runs in and the place where it
  is suspended. A schedule is the order in which they resume: \<open>i\<close> resumes request
  \<open>i\<close> (a number that names no request does nothing).
\<close>

record in_flight =
  f_env :: env
  f_request :: request
  f_pc :: pc

definition resume :: "nat \<Rightarrow> in_flight list \<times> db \<Rightarrow> in_flight list \<times> db" where
  "resume i c =
     (case c of
        (fs, d) \<Rightarrow>
          if i < length fs
          then (case step (f_env (fs ! i)) (f_request (fs ! i)) (f_pc (fs ! i)) d of
                  (p, d') \<Rightarrow> (fs[i := (fs ! i)\<lparr>f_pc := p\<rparr>], d'))
          else (fs, d))"

fun run :: "nat list \<Rightarrow> in_flight list \<times> db \<Rightarrow> in_flight list \<times> db" where
  "run [] c = c"
| "run (i # sched) c = run sched (resume i c)"

definition arrive :: "env \<Rightarrow> request \<Rightarrow> in_flight" where
  "arrive ev r = \<lparr>f_env = ev, f_request = r, f_pc = At_start\<rparr>"

text \<open>The responses that have been sent, by request: \<open>None\<close> while a handler is suspended.\<close>

definition response_of :: "in_flight \<Rightarrow> response option" where
  "response_of f = (case f_pc f of Finished r \<Rightarrow> Some r | _ \<Rightarrow> None)"

text \<open>The index as a property of the database.\<close>

definition slots_distinct :: "db \<Rightarrow> bool" where
  "slots_distinct d = uniq_confirmed_appointments (appointments d)"

text \<open>
  The states of the appointments table that the chatbot routes can reach: the database
  keeps the index \<open>uniq_confirmed_appointments\<close> from the moment the schema is created,
  so a run starts from any table that satisfies it, and goes on by requests that arrive
  and are handled one after the other or interleaved.
\<close>

inductive reachable :: "db \<Rightarrow> bool" where
  initial: "uniq_confirmed_appointments (appointments d) \<Longrightarrow> reachable d"
| message: "reachable d \<Longrightarrow> reachable (snd (message_handler ev py d rq))"
| confirm: "reachable d \<Longrightarrow> reachable (snd (confirm_handler ev d rq))"
| interleaved: "reachable d \<Longrightarrow> reachable (snd (run sched (fs, d)))"


section \<open>\<open>server.js\<close>: \<open>GET /api/chat_sessions/:session_id/messages\<close>\<close>

text \<open>
  The route answers 400 without a session id, 500 when the user query or the selection
  fails, and otherwise 200 with the rows of the session (\<open>messages: result.rows\<close>).
\<close>

datatype history_response = History_invalid | History_failed | History_ok "chat_message list"

definition history_handler ::
  "env \<Rightarrow> db \<Rightarrow> string option \<Rightarrow> string \<Rightarrow> history_response \<times> db" where
  "history_handler ev d sub session_id =
     (if session_id = [] then (History_invalid, d)
      else
        (case upsertUser ev d (sub_or_default sub) of
           (Inl e, d1) \<Rightarrow> (History_failed, d1)
         | (Inr userId, d1) \<Rightarrow>
             (case query ev Q_selectMessages d1 (sql_select_messages userId session_id) of
                (Inl e, d2) \<Rightarrow> (History_failed, d2)
              | (Inr rows, d2) \<Rightarrow> (History_ok rows, d2))))"


section \<open>\<open>App.jsx\<close>: the proposal in the turn history\<close>

text \<open>
  A message of the chat as the component holds it: \<open>{role, content, meta?, created_at?}\<close>.
\<close>

record message =
  role :: string
  content :: json
  meta :: "json option"
  sent_at :: "string option"

text \<open>
  The test of both \<open>confirmAppointment\<close> and \<open>declineAppointment\<close>:
  \<open>message.role === "assistant" && message.meta?.appointment_candidate\<close>.
\<close>

definition is_proposal :: "message \<Rightarrow> bool" where
  "is_proposal m = (role m = ''assistant'' \<and> truthy (get_prop (meta m) ''appointment_candidate''))"

text \<open>
  JavaScript arrays are objects on the heap, and \<open>Array.prototype.reverse\<close> reverses its
  array in place. The heap is the list of the arrays, an array's address its position.
  \<open>[...a]\<close> allocates a copy, \<open>a.reverse()\<close> overwrites \<open>a\<close>, \<open>a.find(p)\<close> reads it.
\<close>

type_synonym heap = "message list list"

definition spread :: "heap \<Rightarrow> nat \<Rightarrow> nat \<times> heap" where
  "spread h a = (length h, h @ [h ! a])"

definition reverse :: "heap \<Rightarrow> nat \<Rightarrow> nat \<times> heap" where
  "reverse h a = (a, h[a := rev (h ! a)])"

definition array_find :: "heap \<Rightarrow> nat \<Rightarrow> (message \<Rightarrow> bool) \<Rightarrow> message option" where
  "array_find h a p = find p (h ! a)"

text \<open>
  \<open>const latestProposal = [...messages].reverse().find(...)\<close>, with the heap it leaves.
\<close>

definition latestProposal :: "heap \<Rightarrow> nat \<Rightarrow> message option \<times> heap" where
  "latestProposal h messages =
     (case spread h messages of
        (copy, h1) \<Rightarrow>
          (case reverse h1 copy of
             (reversed, h2) \<Rightarrow> (array_find h2 reversed is_proposal, h2)))"

text \<open>\<open>latestProposal.meta.appointment_candidate\<close>, the time that is sent to the server.\<close>

definition scheduledTime :: "message option \<Rightarrow> json option" where
  "scheduledTime p = (case p of None \<Rightarrow> None | Some m \<Rightarrow> get_prop (meta m) ''appointment_candidate'')"

text \<open>
  \<open>showConfirmationBar\<close>: the confirm and decline buttons are rendered only when the last
  message is an assistant's with truthy \<open>needs_confirmation\<close> and \<open>appointment_candidate\<close>.
\<close>

definition showConfirmationBar :: "message list \<Rightarrow> bool" where
  "showConfirmationBar ms =
     (if ms = [] then False
      else role (last ms) = ''assistant'' \<and>
           truthy (get_prop (meta (last ms)) ''needs_confirmation'') \<and>
           truthy (get_prop (meta (last ms)) ''appointment_candidate''))"

text \<open>
  \<open>declineAppointment\<close>. The component's state, and what the \<open>fetch\<close> of
  \<open>/api/chatbot/confirm\<close> and \<open>response.json()\<close> gave: a rejection, or a status with its body.
\<close>

record app_state =
  token :: string
  sessionId :: string
  messages :: "message list"
  loading :: bool

datatype fetch_result = Fetch_rejected | Fetch_response nat json

definition response_ok :: "nat \<Rightarrow> bool" where
  "response_ok st = (200 \<le> st \<and> st \<le> 299)"

definition decline_failed_message :: "string \<Rightarrow> message" where
  "decline_failed_message now =
     \<lparr>role = ''assistant'',
      content = JStr (''Sorry, I couldn'' @ [CHR 0x27] @ ''t process your response. Please try again.''),
      meta = Some (JObj [(''error'', JBool True)]),
      sent_at = Some now\<rparr>"

definition declineMessage :: "string \<Rightarrow> message" where
  "declineMessage now =
     \<lparr>role = ''assistant'',
      content = JStr ''No problem! When would be a better time for your appointment?'',
      meta = Some (JObj [(''declined'', JBool True)]),
      sent_at = Some now\<rparr>"

definition network_error_message :: "string \<Rightarrow> message" where
  "network_error_message now =
     \<lparr>role = ''assistant'',
      content = JStr ''Network error occurred. Please try again.'',
      meta = Some (JObj [(''error'', JBool True), (''type'', JStr ''network'')]),
      sent_at = Some now\<rparr>"

definition decline_outcome :: "string \<Rightarrow> fetch_result \<Rightarrow> message" where
  "decline_outcome now r =
     (case r of
        Fetch_rejected \<Rightarrow> network_error_message now
      | Fetch_response st b \<Rightarrow>
          if \<not> response_ok st then decline_failed_message now else declineMessage now)"

definition declineAppointment :: "string \<Rightarrow> fetch_result \<Rightarrow> app_state \<Rightarrow> app_state" where
  "declineAppointment now r st =
     (if token st = [] then st
      else
        (case find is_proposal (rev (messages st)) of
           None \<Rightarrow> st
         | Some latest \<Rightarrow>
             st\<lparr>messages := messages st @ [decline_outcome now r], loading := False\<rparr>))"

text \<open>
  \<open>loadConversationHistory\<close>, run when the token and the session id are there: the rows
  that \<open>GET /api/chat_sessions/:session_id/messages\<close> returns, put in the component's
  format (\<open>meta: message.meta || null\<close>; the time of a row is not modelled), replace the
  messages. When the fetch is rejected (\<open>None\<close>) or the answer is not \<open>ok\<close>, the
  messages stay.
\<close>

definition formattedMessages :: "chat_message list \<Rightarrow> message list" where
  "formattedMessages rows =
     map (\<lambda>m. \<lparr>role = cm_role m, content = cm_content m,
               meta = Some (or_else (Some (cm_meta m)) JNull), sent_at = None\<rparr>) rows"

definition loadConversationHistory :: "history_response option \<Rightarrow> app_state \<Rightarrow> app_state" where
  "loadConversationHistory r st =
     (if token st = [] \<or> sessionId st = [] then st
      else
        (case r of
           Some (History_ok rows) \<Rightarrow> st\<lparr>messages := formattedMessages rows\<rparr>
         | _ \<Rightarrow> st))"


section \<open>The extractor behind \<open>/simulate\<close>\<close>

text \<open>
  The Python service is not among the repository's files at hand; the route handler
  above is its only caller.
\<close>

datatype intent = Chat | Propose | Confirm | Decline

record extraction_result =
  er_reply :: string
  er_intent :: intent
  er_candidate :: "string option"
  er_needs_confirmation :: bool
  er_confidence_percent :: nat

datatype strategy = Generative | Deterministic

datatype backend_outcome =
    Backend_result extraction_result
  | Backend_timeout
  | Backend_malformed_output
  | Backend_quota_or_error

datatype extraction_mode = By_generative | By_deterministic | By_fallback

text \<open>
  Modelled from the spec: the Extractor of section 4.1, whose code (the Python service) is
  missing. The strategy is selected per call; the generative strategy takes what the
  backend gave (the backend is sent the message and the last five turns, so its outcome
  is a parameter), and on a backend failure falls back to the deterministic strategy and
  tags the result. The deterministic strategy \<open>det\<close> is a parameter: the spec gives it as
  a function that always returns a result.
\<close>

definition extractor ::
  "(string \<Rightarrow> extraction_result) \<Rightarrow> strategy \<Rightarrow> backend_outcome \<Rightarrow> string
     \<Rightarrow> extraction_mode \<times> extraction_result" where
  "extractor det strat backend msg =
     (case strat of
        Deterministic \<Rightarrow> (By_deterministic, det msg)
      | Generative \<Rightarrow>
          (case backend of
             Backend_result r \<Rightarrow> (By_generative, r)
           | _ \<Rightarrow> (By_fallback, det msg)))"

definition intent_name :: "intent \<Rightarrow> string" where
  "intent_name i =
     (case i of Chat \<Rightarrow> ''chat'' | Propose \<Rightarrow> ''propose'' | Confirm \<Rightarrow> ''confirm''
      | Decline \<Rightarrow> ''decline'')"

definition mode_name :: "extraction_mode \<Rightarrow> string" where
  "mode_name m =
     (case m of By_generative \<Rightarrow> ''generative'' | By_deterministic \<Rightarrow> ''deterministic''
      | By_fallback \<Rightarrow> ''fallback'')"

text \<open>
  Modelled from the spec: the ExtractionResult of section 3 as the JSON object the route
  handler reads (\<open>reply\<close>, \<open>intent\<close>, \<open>appointment_candidate\<close>, \<open>needs_confirmation\<close>), with
  the tag of the mode that produced it.
\<close>

definition result_json :: "extraction_mode \<times> extraction_result \<Rightarrow> json" where
  "result_json mr =
     (case mr of
        (m, r) \<Rightarrow>
          JObj [(''reply'', JStr (er_reply r)),
                (''intent'', JStr (intent_name (er_intent r))),
                (''appointment_candidate'',
                 (case er_candidate r of None \<Rightarrow> JNull | Some c \<Rightarrow> JStr c)),
                (''needs_confirmation'', JBool (er_needs_confirmation r)),
                (''confidence_percent'', JNum (int (er_confidence_percent r))),
                (''mode'', JStr (mode_name m))])"

text \<open>
  Modelled from the spec: the service answering \<open>POST /simulate\<close> with the result of the
  extraction call.
\<close>

definition simulate ::
  "(string \<Rightarrow> extraction_result) \<Rightarrow> strategy \<Rightarrow> backend_outcome \<Rightarrow> string \<Rightarrow> py_reply" where
  "simulate det strat backend msg = Py_json (result_json (extractor det strat backend msg))"



section \<open>Notions used to state the properties\<close>

text \<open>
  Running one request alone: \<open>complete n\<close> resumes it \<open>n\<close> times, and \<open>sent\<close> is the
  state of a handler that has sent its response.
\<close>

fun complete :: "nat \<Rightarrow> env \<Rightarrow> request \<Rightarrow> pc \<Rightarrow> db \<Rightarrow> pc \<times> db" where
  "complete 0 ev r p d = (p, d)"
| "complete (Suc n) ev r p d = (case step ev r p d of (p', d') \<Rightarrow> complete n ev r p' d')"

definition sent :: "response \<times> db \<Rightarrow> pc \<times> db" where
  "sent x = (Finished (fst x), snd x)"

text \<open>The rows that the handlers append to \<open>chat_messages\<close>.\<close>

definition user_turn_row :: "nat \<Rightarrow> string \<Rightarrow> string \<Rightarrow> chat_message" where
  "user_turn_row userId tok trimmed =
     \<lparr>cm_user_id = userId, cm_session_token = tok, cm_role = ''user'',
      cm_content = JStr trimmed, cm_meta = JObj []\<rparr>"

definition assistant_turn_row :: "nat \<Rightarrow> string \<Rightarrow> json \<Rightarrow> chat_message" where
  "assistant_turn_row userId tok data =
     \<lparr>cm_user_id = userId, cm_session_token = tok, cm_role = ''assistant'',
      cm_content = assistantReply data, cm_meta = assistant_meta data\<rparr>"

definition decline_turn_row :: "nat \<Rightarrow> string \<Rightarrow> string \<Rightarrow> chat_message" where
  "decline_turn_row userId tok s =
     \<lparr>cm_user_id = userId, cm_session_token = tok, cm_role = ''assistant'',
      cm_content = decline_content, cm_meta = decline_meta s\<rparr>"

text \<open>
  The pending proposal in the words of the specification, to be compared with
  \<open>latestProposal\<close>: the most recent assistant turn carrying \<open>needs_confirmation = true\<close>,
  found by a scan backward from the end of the turn sequence.
\<close>

definition spec_pending_proposal :: "message list \<Rightarrow> message option" where
  "spec_pending_proposal ms =
     find (\<lambda>m. role m = ''assistant'' \<and> truthy (get_prop (meta m) ''needs_confirmation''))
          (rev ms)"


text \<open>
  The component loading the history of its session from the server: the fetch of
  \<open>loadConversationHistory\<close> answered by the route over the database \<open>d\<close>.
\<close>

definition reload :: "env \<Rightarrow> db \<Rightarrow> string option \<Rightarrow> app_state \<Rightarrow> app_state" where
  "reload ev d sub st =
     loadConversationHistory (Some (fst (history_handler ev d sub (sessionId st)))) st"

text \<open>
  A valid ISO-8601 instant in the words of the specification, to be compared with the
  handler's check \<open>new Date(scheduled_at)\<close>: a calendar date, a time of day and a zone in
  the extended format \<open>YYYY-MM-DDThh:mm:ss\<close>, with an optional fraction of the second,
  followed by \<open>Z\<close> or an offset \<open>+hh:mm\<close> or \<open>-hh:mm\<close>, every field in its range.
\<close>

definition digit_of :: "char \<Rightarrow> nat option" where
  "digit_of c =
     map_of [(CHR ''0'', 0), (CHR ''1'', 1), (CHR ''2'', 2), (CHR ''3'', 3), (CHR ''4'', 4),
             (CHR ''5'', 5), (CHR ''6'', 6), (CHR ''7'', 7), (CHR ''8'', 8), (CHR ''9'', 9)] c"

fun decimal :: "nat \<Rightarrow> string \<Rightarrow> nat option" where
  "decimal n [] = Some n"
| "decimal n (c # cs) =
     (case digit_of c of None \<Rightarrow> None | Some k \<Rightarrow> decimal (10 * n + k) cs)"

definition digits_at :: "nat \<Rightarrow> nat \<Rightarrow> string \<Rightarrow> nat option" where
  "digits_at pos len s =
     (if length (take len (drop pos s)) = len then decimal 0 (take len (drop pos s)) else None)"

definition leap_year :: "nat \<Rightarrow> bool" where
  "leap_year y =
     (if y mod 400 = 0 then True else if y mod 100 = 0 then False else y mod 4 = 0)"

definition days_in_month :: "nat \<Rightarrow> nat \<Rightarrow> nat" where
  "days_in_month y m =
     (if m = 2 then (if leap_year y then 29 else 28)
      else if m = 4 \<or> m = 6 \<or> m = 9 \<or> m = 11 then 30 else 31)"

definition zone_ok :: "string \<Rightarrow> bool" where
  "zone_ok z =
     (z = ''Z'' \<or>
      (length z = 6 \<and> (take 1 z = ''+'' \<or> take 1 z = ''-'') \<and> take 1 (drop 3 z) = '':'' \<and>
       (case digits_at 1 2 z of
          None \<Rightarrow> False
        | Some h \<Rightarrow> (case digits_at 4 2 z of None \<Rightarrow> False | Some m \<Rightarrow> h < 24 \<and> m < 60))))"

definition fraction_and_zone :: "string \<Rightarrow> bool" where
  "fraction_and_zone r =
     (case r of
        [] \<Rightarrow> False
      | c # ds \<Rightarrow>
          if c = CHR ''.''
          then takeWhile (\<lambda>x. digit_of x \<noteq> None) ds \<noteq> [] \<and>
               zone_ok (dropWhile (\<lambda>x. digit_of x \<noteq> None) ds)
          else zone_ok r)"

definition spec_iso8601_instant :: "string \<Rightarrow> bool" where
  "spec_iso8601_instant s =
     (case digits_at 0 4 s of None \<Rightarrow> False | Some y \<Rightarrow>
      case digits_at 5 2 s of None \<Rightarrow> False | Some mo \<Rightarrow>
      case digits_at 8 2 s of None \<Rightarrow> False | Some dd \<Rightarrow>
      case digits_at 11 2 s of None \<Rightarrow> False | Some h \<Rightarrow>
      case digits_at 14 2 s of None \<Rightarrow> False | Some mi \<Rightarrow>
      case digits_at 17 2 s of None \<Rightarrow> False | Some se \<Rightarrow>
        take 1 (drop 4 s) = ''-'' \<and> take 1 (drop 7 s) = ''-'' \<and> take 1 (drop 10 s) = ''T'' \<and>
        take 1 (drop 13 s) = '':'' \<and> take 1 (drop 16 s) = '':'' \<and>
        1 \<le> mo \<and> mo \<le> 12 \<and> 1 \<le> dd \<and> dd \<le> days_in_month y mo \<and>
        h < 24 \<and> mi < 60 \<and> se < 60 \<and> fraction_and_zone (drop 19 s))"


section \<open>Concrete inputs\<close>

text \<open>
  What \<open>String.prototype.trim\<close> does to a string of ASCII characters, as all the strings
  below are: the white space and line terminators among them are the space and the
  characters 9 to 13.
\<close>

definition is_space :: "char \<Rightarrow> bool" where
  "is_space c = (c \<in> set [CHR '' '', CHR 0x09, CHR 0x0A, CHR 0x0B, CHR 0x0C, CHR 0x0D])"

definition ascii_trim :: "string \<Rightarrow> string" where
  "ascii_trim s = rev (dropWhile is_space (rev (dropWhile is_space s)))"

text \<open>
  A \<open>Date\<close> and a \<open>TIMESTAMP\<close> reading that know two instants, a clock between them, and
  an empty database with its sequences at 1.
\<close>

definition demo_Date :: "string \<Rightarrow> int option" where
  "demo_Date s =
     (if s = ''2030-10-07T10:00:00Z'' then Some 1917597600000
      else if s = ''2025-10-07T10:00:00Z'' then Some 1759831200000
      else None)"

definition demo_env :: env where
  "demo_env =
     \<lparr>faults = (\<lambda>q. False), js_trim = ascii_trim, js_Date = demo_Date, js_now = 1793696400000,
      toLocaleString = (\<lambda>s. s), pg_timestamp = demo_Date, pg_now = 1793696400000,
      pg_json = (\<lambda>t. ''timestamp'')\<rparr>"

text \<open>
  Two strings that are not ISO-8601 instants, as Node's \<open>Date\<close> and PostgreSQL's
  \<open>TIMESTAMP\<close> input read them: \<open>October 7, 2030 10:00:00\<close> is read by both (the server's
  zone taken to be UTC); \<open>2030-02-30T10:00:00Z\<close> is read by \<open>Date\<close>, which lets the day of
  any month run to 31 and gives the second of March, and is rejected by PostgreSQL (date
  out of range).
\<close>

definition lenient_Date :: "string \<Rightarrow> int option" where
  "lenient_Date s =
     (if s = ''October 7, 2030 10:00:00'' then Some 1917597600000
      else if s = ''2030-02-30T10:00:00Z'' then Some 1898676000000
      else demo_Date s)"

definition lenient_timestamp :: "string \<Rightarrow> int option" where
  "lenient_timestamp s =
     (if s = ''October 7, 2030 10:00:00'' then Some 1917597600000 else demo_Date s)"

definition lenient_env :: env where
  "lenient_env = demo_env\<lparr>js_Date := lenient_Date, pg_timestamp := lenient_timestamp\<rparr>"

definition empty_db :: db where
  "empty_db =
     \<lparr>users = [], users_id_seq = 1, chat_sessions = [], chat_sessions_id_seq = 1,
      chat_messages = [], appointments = [], appointments_id_seq = 1, statements = []\<rparr>"

definition confirm_of :: "string \<Rightarrow> string \<Rightarrow> confirm_request" where
  "confirm_of sid s =
     \<lparr>cr_sub = Some ''user_1'', cr_session_id = Some sid, cr_scheduled_at = Some s,
      cr_confirm = Some (JBool True)\<rparr>"

definition decline_of :: "string \<Rightarrow> string \<Rightarrow> confirm_request" where
  "decline_of sid s =
     \<lparr>cr_sub = Some ''user_1'', cr_session_id = Some sid, cr_scheduled_at = Some s,
      cr_confirm = Some (JBool False)\<rparr>"

definition message_of :: "string \<Rightarrow> string \<Rightarrow> message_request" where
  "message_of sid msg =
     \<lparr>mr_sub = Some ''user_1'', mr_message = Some (JStr msg), mr_session_id = Some sid\<rparr>"

definition proposal_turn :: "string \<Rightarrow> bool \<Rightarrow> message" where
  "proposal_turn s nc =
     \<lparr>role = ''assistant'', content = JStr ''How about this time?'',
      meta = Some (JObj [(''appointment_candidate'', JStr s), (''intent'', JStr ''propose''),
                         (''needs_confirmation'', JBool nc)]),
      sent_at = None\<rparr>"

definition user_turn :: "string \<Rightarrow> message" where
  "user_turn msg = \<lparr>role = ''user'', content = JStr msg, meta = None, sent_at = None\<rparr>"


definition booked_db :: db where
  "booked_db =
     snd (confirm_handler demo_env empty_db (confirm_of ''session-a'' ''2030-10-07T10:00:00Z''))"

definition demo_data :: json where
  "demo_data =
     JObj [(''reply'', JStr ''I can book you for Monday at 10am''),
           (''appointment_candidate'', JStr ''2030-10-07T10:00:00Z''),
           (''intent'', JStr ''propose''), (''needs_confirmation'', JBool True)]"

definition log_faults :: "query_site \<Rightarrow> bool" where
  "log_faults q = (q = Q_logUserMessage \<or> q = Q_logAssistantReply \<or> q = Q_logDecline \<or>
                   q = Q_logConfirmation)"

definition demo_state :: app_state where
  "demo_state =
     \<lparr>token = ''jwt'', sessionId = ''session-a'',
      messages = [user_turn ''Monday at 10am please'',
                  proposal_turn ''2030-10-07T10:00:00Z'' True],
      loading = False\<rparr>"

text \<open>
  A session in which the assistant has proposed a time, the component that has loaded
  it, and a decline of the proposal whose turn the store fails to insert.
\<close>

definition proposed_db :: db where
  "proposed_db =
     snd (message_handler demo_env (Py_json demo_data) empty_db
            (message_of ''session-a'' ''Monday at 10am please''))"

definition fresh_state :: app_state where
  "fresh_state = \<lparr>token = ''jwt'', sessionId = ''session-a'', messages = [], loading = False\<rparr>"

definition loaded_state :: app_state where
  "loaded_state = reload demo_env proposed_db (Some ''user_1'') fresh_state"

definition decline_fault_env :: env where
  "decline_fault_env = demo_env\<lparr>faults := (\<lambda>q. q = Q_logDecline)\<rparr>"

definition declined_db :: db where
  "declined_db =
     snd (confirm_handler decline_fault_env proposed_db
            (decline_of ''session-a'' ''2030-10-07T10:00:00Z''))"

definition declined_state :: app_state where
  "declined_state =
     declineAppointment ''2026-11-03T09:00:00.000Z'' (Fetch_response 200 (body declined))
       loaded_state"

definition reloaded_state :: app_state where
  "reloaded_state = reload demo_env declined_db (Some ''user_1'') declined_state"

definition demo_det :: "string \<Rightarrow> extraction_result" where
  "demo_det msg =
     \<lparr>er_reply = ''When would you like to come in?'', er_intent = Chat, er_candidate = None,
      er_needs_confirmation = False, er_confidence_percent = 60\<rparr>"

definition two_confirms :: "in_flight list" where
  "two_confirms =
     [arrive demo_env (Confirm_request (confirm_of ''session-a'' ''2030-10-07T10:00:00Z'')),
      arrive demo_env (Confirm_request (confirm_of ''session-b'' ''2030-10-07T10:00:00Z''))]"


section \<open>Evaluating the model\<close>

lemma confirmed_keys_Nil: "confirmed_keys [] = []"
  by (simp add: confirmed_keys_def)

lemma confirmed_keys_Cons:
  "confirmed_keys (a # xs) =
     (if status a = Confirmed then scheduled_at a # confirmed_keys xs else confirmed_keys xs)"
  by (simp add: confirmed_keys_def)

lemmas eval_defs =
  confirm_handler_def message_handler_def validate_confirm_def upsertUser_def ensureSession_def
  logMessage_def query_def sql_upsert_user_def sql_find_session_def sql_insert_session_def
  sql_insert_chat_message_def sql_conflict_check_def sql_insert_appointment_def
  confirmed_keys_Nil confirmed_keys_Cons uniq_confirmed_appointments_def sub_or_default_def
  truthy_str_def demo_env_def demo_Date_def empty_db_def confirm_of_def decline_of_def
  message_of_def step_def resume_def arrive_def response_of_def Let_def

lemmas iso_eval =
  spec_iso8601_instant_def digits_at_def digit_of_def fraction_and_zone_def zone_ok_def
  days_in_month_def leap_year_def


section \<open>What the statements do to the appointments table\<close>

lemma query_frame:
  assumes "\<And>d0. appointments (snd (stmt d0)) = appointments d0"
  shows "appointments (snd (query ev site d stmt)) = appointments d"
  using assms[of "d\<lparr>statements := statements d @ [site]\<rparr>"]
  by (simp add: query_def Let_def)

lemma upsertUser_appointments:
  "appointments (snd (upsertUser ev d sub)) = appointments d"
  unfolding upsertUser_def
  by (rule query_frame) (auto simp: sql_upsert_user_def split: option.splits)

lemma find_session_appointments:
  "appointments (snd (query ev Q_findSession d (sql_find_session t))) = appointments d"
  by (rule query_frame) (auto simp: sql_find_session_def)

lemma insert_session_appointments:
  "appointments (snd (query ev Q_insertSession d (sql_insert_session u t))) = appointments d"
  by (rule query_frame) (auto simp: sql_insert_session_def)

lemma ensureSession_appointments:
  "appointments (snd (ensureSession ev d userId tok)) = appointments d"
proof (cases tok)
  case None
  then show ?thesis by (simp add: ensureSession_def)
next
  case (Some t)
  obtain r d1 where f: "query ev Q_findSession d (sql_find_session t) = (r, d1)"
    by (cases "query ev Q_findSession d (sql_find_session t)")
  with find_session_appointments[of ev d t] have a1: "appointments d1 = appointments d"
    by simp
  obtain r2 d2 where i: "query ev Q_insertSession d1 (sql_insert_session userId t) = (r2, d2)"
    by (cases "query ev Q_insertSession d1 (sql_insert_session userId t)")
  with insert_session_appointments[of ev d1 userId t] have "appointments d2 = appointments d1"
    by simp
  with a1 f i Some show ?thesis
    by (auto simp: ensureSession_def split: sum.splits option.splits)
qed

lemma logMessage_appointments:
  "appointments (logMessage ev site d u tok r c m) = appointments d"
proof -
  have "appointments (snd (query ev site d (sql_insert_chat_message u tok r c m))) = appointments d"
    by (rule query_frame) (auto simp: sql_insert_chat_message_def split: option.splits)
  then show ?thesis
    by (cases "query ev site d (sql_insert_chat_message u tok r c m)")
       (auto simp: logMessage_def split: sum.splits)
qed

lemma conflict_check_appointments:
  "appointments (snd (query ev Q_conflictCheck d (sql_conflict_check ev s))) = appointments d"
  by (rule query_frame) (auto simp: sql_conflict_check_def split: option.splits)

text \<open>The insert is the one statement that writes the table, and it keeps the index.\<close>

lemma insert_appointment_uniq:
  assumes "uniq_confirmed_appointments (appointments d)"
  shows "uniq_confirmed_appointments
           (appointments (snd (query ev' site d (sql_insert_appointment ev uid s))))"
  using assms
  by (auto simp: query_def Let_def sql_insert_appointment_def uniq_confirmed_appointments_def
        confirmed_keys_def split: option.splits)

lemma upsertUser_appointmentsD:
  "upsertUser ev d sub = (r, d1) \<Longrightarrow> appointments d1 = appointments d"
  using upsertUser_appointments[of ev d sub] by simp

lemma ensureSession_appointmentsD:
  "ensureSession ev d u t = (r, d1) \<Longrightarrow> appointments d1 = appointments d"
  using ensureSession_appointments[of ev d u t] by simp

lemma conflict_check_appointmentsD:
  "query ev Q_conflictCheck d (sql_conflict_check ev s) = (r, d1) \<Longrightarrow>
   appointments d1 = appointments d"
  using conflict_check_appointments[of ev d s] by simp

lemma insert_appointment_uniqD:
  "query ev Q_insertAppointment d (sql_insert_appointment ev u s) = (r, d1) \<Longrightarrow>
   uniq_confirmed_appointments (appointments d) \<Longrightarrow>
   uniq_confirmed_appointments (appointments d1)"
  using insert_appointment_uniq[of d ev Q_insertAppointment ev u s] by simp


section \<open>The index is kept by every handler, one at a time or interleaved\<close>

lemma upsertUser_distinct:
  "slots_distinct d \<Longrightarrow> upsertUser ev d sub = (r, d1) \<Longrightarrow> slots_distinct d1"
  using upsertUser_appointments[of ev d sub] by (simp add: slots_distinct_def)

lemma find_session_distinct:
  "slots_distinct d \<Longrightarrow> query ev Q_findSession d (sql_find_session t) = (r, d1) \<Longrightarrow>
   slots_distinct d1"
  using find_session_appointments[of ev d t] by (simp add: slots_distinct_def)

lemma insert_session_distinct:
  "slots_distinct d \<Longrightarrow> query ev Q_insertSession d (sql_insert_session u t) = (r, d1) \<Longrightarrow>
   slots_distinct d1"
  using insert_session_appointments[of ev d u t] by (simp add: slots_distinct_def)

lemma logMessage_distinct:
  "slots_distinct d \<Longrightarrow> slots_distinct (logMessage ev site d u tok r c m)"
  by (simp add: slots_distinct_def logMessage_appointments)

lemma conflict_check_distinct:
  "slots_distinct d \<Longrightarrow> query ev Q_conflictCheck d (sql_conflict_check ev s) = (r, d1) \<Longrightarrow>
   slots_distinct d1"
  using conflict_check_appointments[of ev d s] by (simp add: slots_distinct_def)

lemma insert_appointment_distinct:
  "slots_distinct d \<Longrightarrow>
   query ev Q_insertAppointment d (sql_insert_appointment ev u s) = (r, d1) \<Longrightarrow>
   slots_distinct d1"
  using insert_appointment_uniq[of d ev Q_insertAppointment ev u s]
  by (simp add: slots_distinct_def)

lemmas statement_distinct =
  upsertUser_distinct find_session_distinct insert_session_distinct logMessage_distinct
  conflict_check_distinct insert_appointment_distinct

lemma message_step_distinct:
  "slots_distinct d \<Longrightarrow> slots_distinct (snd (message_step ev py rq p d))"
  by (cases p)
     (auto split: option.splits json.splits prod.splits sum.splits py_reply.splits
           intro: statement_distinct)

lemma confirm_step_distinct:
  "slots_distinct d \<Longrightarrow> slots_distinct (snd (confirm_step ev rq p d))"
  by (cases p)
     (auto split: option.splits prod.splits sum.splits intro: statement_distinct)

lemma step_distinct: "slots_distinct d \<Longrightarrow> slots_distinct (snd (step ev r p d))"
  by (cases r) (simp_all add: step_def message_step_distinct confirm_step_distinct)

lemma resume_distinct: "slots_distinct (snd c) \<Longrightarrow> slots_distinct (snd (resume i c))"
proof (cases c)
  case (Pair fs d)
  assume "slots_distinct (snd c)"
  with Pair have d: "slots_distinct d" by simp
  from step_distinct[OF d, of "f_env (fs ! i)" "f_request (fs ! i)" "f_pc (fs ! i)"] Pair d
  show ?thesis by (auto simp: resume_def split: prod.splits)
qed

lemma run_distinct: "slots_distinct (snd c) \<Longrightarrow> slots_distinct (snd (run sched c))"
  by (induction sched arbitrary: c) (simp_all add: resume_distinct)

lemma message_handler_appointments:
  "appointments (snd (message_handler ev py d rq)) = appointments d"
  by (auto simp: message_handler_def Let_def logMessage_appointments
        split: option.splits json.splits prod.splits sum.splits py_reply.splits
        dest!: upsertUser_appointmentsD ensureSession_appointmentsD)

lemma confirm_handler_distinct:
  assumes "uniq_confirmed_appointments (appointments d)"
  shows "uniq_confirmed_appointments (appointments (snd (confirm_handler ev d rq)))"
proof (cases "validate_confirm ev rq")
  case (Inl resp)
  then show ?thesis using assms by (simp add: confirm_handler_def)
next
  case (Inr s)
  obtain r1 d1 where u: "upsertUser ev d (sub_or_default (cr_sub rq)) = (r1, d1)"
    by (cases "upsertUser ev d (sub_or_default (cr_sub rq))")
  have a1: "appointments d1 = appointments d" using upsertUser_appointmentsD[OF u] .
  show ?thesis
  proof (cases r1)
    case (Inl e)
    with Inr u a1 assms show ?thesis by (simp add: confirm_handler_def)
  next
    case r1: (Inr userId)
    obtain r2 d2 where e: "ensureSession ev d1 userId (cr_session_id rq) = (r2, d2)"
      by (cases "ensureSession ev d1 userId (cr_session_id rq)")
    have a2: "appointments d2 = appointments d"
      using ensureSession_appointmentsD[OF e] a1 by simp
    obtain r3 d3 where c: "query ev Q_conflictCheck d2 (sql_conflict_check ev s) = (r3, d3)"
      by (cases "query ev Q_conflictCheck d2 (sql_conflict_check ev s)")
    have a3: "appointments d3 = appointments d"
      using conflict_check_appointmentsD[OF c] a2 by simp
    obtain r4 d4 where
      i: "query ev Q_insertAppointment d3 (sql_insert_appointment ev userId s) = (r4, d4)"
      by (cases "query ev Q_insertAppointment d3 (sql_insert_appointment ev userId s)")
    have a4: "uniq_confirmed_appointments (appointments d4)"
      using insert_appointment_uniqD[OF i] a3 assms by simp
    from Inr u r1 e c i a1 a2 a3 a4 assms show ?thesis
      by (simp add: confirm_handler_def logMessage_appointments split: sum.splits)
  qed
qed

lemma reachable_distinct: "reachable d \<Longrightarrow> uniq_confirmed_appointments (appointments d)"
proof (induction rule: reachable.induct)
  case (initial d)
  then show ?case .
next
  case (message d ev py rq)
  then show ?case by (simp add: message_handler_appointments)
next
  case (confirm d ev rq)
  then show ?case using confirm_handler_distinct[of d ev rq] by simp
next
  case (interleaved d sched fs)
  then show ?case using run_distinct[of "(fs, d)" sched] by (simp add: slots_distinct_def)
qed

text \<open>
  C1. In every state of the appointments table that the chatbot routes can reach, the
  \<open>scheduled_at\<close> values of the rows with status \<open>confirmed\<close> are pairwise distinct, and
  they still are after a further message, after a further confirmation or decline, and
  after any interleaving of the statements of requests in flight.
\<close>

theorem confirmed_slots_distinct:
  assumes "reachable d"
  shows "uniq_confirmed_appointments (appointments d) \<and>
         uniq_confirmed_appointments (appointments (snd (message_handler ev py d mrq))) \<and>
         uniq_confirmed_appointments (appointments (snd (confirm_handler ev' d crq))) \<and>
         uniq_confirmed_appointments (appointments (snd (run sched (fs, d))))"
proof -
  have "reachable (snd (message_handler ev py d mrq))"
    and "reachable (snd (confirm_handler ev' d crq))"
    and "reachable (snd (run sched (fs, d)))"
    using assms by (auto intro: reachable.intros)
  with assms show ?thesis by (simp add: reachable_distinct)
qed

theorem confirmed_slots_distinct_witness:
  "uniq_confirmed_appointments
     (appointments (snd (confirm_handler demo_env empty_db
        (confirm_of ''session-a'' ''2030-10-07T10:00:00Z'')))) \<and>
   uniq_confirmed_appointments
     (appointments (snd (run [0, 0, 0, 0, 1, 1, 1, 1, 0, 0, 1]
        (two_confirms,
         snd (confirm_handler demo_env empty_db
                (confirm_of ''session-a'' ''2030-10-07T10:00:00Z''))))))"
proof -
  have "uniq_confirmed_appointments (appointments empty_db)"
    by (simp add: eval_defs)
  then have "reachable empty_db" by (rule reachable.initial)
  then have r: "reachable (snd (confirm_handler demo_env empty_db
                  (confirm_of ''session-a'' ''2030-10-07T10:00:00Z'')))"
    by (rule reachable.confirm)
  from confirmed_slots_distinct[OF r] show ?thesis by blast
qed


section \<open>What each helper leaves untouched\<close>

lemma upsertUser_frame:
  shows "chat_sessions (snd (upsertUser ev d sub)) = chat_sessions d"
    and "chat_sessions_id_seq (snd (upsertUser ev d sub)) = chat_sessions_id_seq d"
    and "chat_messages (snd (upsertUser ev d sub)) = chat_messages d"
    and "appointments_id_seq (snd (upsertUser ev d sub)) = appointments_id_seq d"
    and "statements (snd (upsertUser ev d sub)) = statements d @ [Q_upsertUser]"
  by (auto simp: upsertUser_def query_def Let_def sql_upsert_user_def split: option.splits)

lemma ensureSession_frame:
  shows "users (snd (ensureSession ev d u tok)) = users d"
    and "chat_messages (snd (ensureSession ev d u tok)) = chat_messages d"
    and "appointments_id_seq (snd (ensureSession ev d u tok)) = appointments_id_seq d"
    and "\<exists>xs. statements (snd (ensureSession ev d u tok)) = statements d @ xs \<and>
              set xs \<subseteq> {Q_findSession, Q_insertSession}"
  by (auto simp: ensureSession_def query_def Let_def sql_find_session_def sql_insert_session_def
        split: option.splits)

lemma logMessage_frame:
  shows "users (logMessage ev site d u tok r c m) = users d"
    and "chat_sessions (logMessage ev site d u tok r c m) = chat_sessions d"
    and "appointments_id_seq (logMessage ev site d u tok r c m) = appointments_id_seq d"
    and "statements (logMessage ev site d u tok r c m) = statements d @ [site]"
  by (auto simp: logMessage_def query_def Let_def sql_insert_chat_message_def
        split: option.splits)

lemma logMessage_chat_messages:
  "chat_messages (logMessage ev site d u tok r c m) =
     (case tok of
        None \<Rightarrow> chat_messages d
      | Some t \<Rightarrow>
          if faults ev site then chat_messages d
          else chat_messages d @
                 [\<lparr>cm_user_id = u, cm_session_token = t, cm_role = r, cm_content = c, cm_meta = m\<rparr>])"
  by (auto simp: logMessage_def query_def Let_def sql_insert_chat_message_def
        split: option.splits)

lemma conflict_check_frame:
  shows "users (snd (query ev Q_conflictCheck d (sql_conflict_check ev s))) = users d"
    and "chat_sessions (snd (query ev Q_conflictCheck d (sql_conflict_check ev s))) = chat_sessions d"
    and "chat_messages (snd (query ev Q_conflictCheck d (sql_conflict_check ev s))) = chat_messages d"
    and "appointments_id_seq (snd (query ev Q_conflictCheck d (sql_conflict_check ev s)))
           = appointments_id_seq d"
    and "statements (snd (query ev Q_conflictCheck d (sql_conflict_check ev s)))
           = statements d @ [Q_conflictCheck]"
  by (auto simp: query_def Let_def sql_conflict_check_def split: option.splits)

lemma upsertUser_frameD:
  assumes "upsertUser ev d sub = (r, d1)"
  shows "chat_sessions d1 = chat_sessions d \<and> chat_sessions_id_seq d1 = chat_sessions_id_seq d \<and>
         chat_messages d1 = chat_messages d \<and> appointments d1 = appointments d \<and>
         appointments_id_seq d1 = appointments_id_seq d \<and>
         statements d1 = statements d @ [Q_upsertUser]"
proof -
  have "d1 = snd (upsertUser ev d sub)" using assms by simp
  then show ?thesis by (simp add: upsertUser_frame upsertUser_appointments)
qed

lemma ensureSession_frameD:
  assumes "ensureSession ev d u tok = (r, d1)"
  shows "users d1 = users d \<and> chat_messages d1 = chat_messages d \<and>
         appointments d1 = appointments d \<and> appointments_id_seq d1 = appointments_id_seq d \<and>
         (\<exists>xs. statements d1 = statements d @ xs \<and> set xs \<subseteq> {Q_findSession, Q_insertSession})"
proof -
  have "d1 = snd (ensureSession ev d u tok)" using assms by simp
  then show ?thesis
    using ensureSession_frame(4)[of ev d u tok]
    by (simp add: ensureSession_frame(1-3) ensureSession_appointments)
qed

lemma conflict_check_frameD:
  assumes "query ev Q_conflictCheck d (sql_conflict_check ev s) = (r, d1)"
  shows "users d1 = users d \<and> chat_sessions d1 = chat_sessions d \<and>
         chat_messages d1 = chat_messages d \<and> appointments d1 = appointments d \<and>
         appointments_id_seq d1 = appointments_id_seq d \<and>
         statements d1 = statements d @ [Q_conflictCheck]"
proof -
  have "d1 = snd (query ev Q_conflictCheck d (sql_conflict_check ev s))" using assms by simp
  then show ?thesis by (simp add: conflict_check_frame conflict_check_appointments)
qed

lemma insert_appointment_frameD:
  assumes "query ev Q_insertAppointment d (sql_insert_appointment ev u s) = (r, d1)"
  shows "users d1 = users d \<and> chat_sessions d1 = chat_sessions d \<and>
         chat_messages d1 = chat_messages d \<and>
         statements d1 = statements d @ [Q_insertAppointment] \<and>
         (case r of
            Inl e \<Rightarrow> appointments d1 = appointments d
          | Inr a \<Rightarrow> appointments d1 = appointments d @ [a] \<and> status a = Confirmed \<and>
                     pg_timestamp ev s = Some (scheduled_at a))"
  using assms
  by (auto simp: query_def Let_def sql_insert_appointment_def split: option.splits if_splits)

lemma upsertUser_succeeds:
  "\<not> faults ev Q_upsertUser \<Longrightarrow> \<exists>userId d1. upsertUser ev d sub = (Inr userId, d1)"
  by (auto simp: upsertUser_def query_def Let_def sql_upsert_user_def split: option.splits)

lemma ensureSession_succeeds:
  "\<not> faults ev Q_findSession \<Longrightarrow> \<not> faults ev Q_insertSession \<Longrightarrow>
   \<exists>sid d2. ensureSession ev d u tok = (Inr sid, d2)"
  by (auto simp: ensureSession_def query_def Let_def sql_find_session_def
        sql_insert_session_def split: option.splits)

lemma rowCount_pos:
  "(length (take 1 (filter (\<lambda>a. scheduled_at a = t \<and> status a = Confirmed) xs)) > 0)
     = (t \<in> set (confirmed_keys xs))"
proof -
  have k: "t \<in> set (confirmed_keys xs) \<longleftrightarrow>
        (\<exists>a\<in>set xs. scheduled_at a = t \<and> status a = Confirmed)"
    by (auto simp: confirmed_keys_def)
  have "length (take 1 ys) > 0 \<longleftrightarrow> ys \<noteq> []" for ys :: "appointment list"
    by (cases ys) auto
  then have "(length (take 1 (filter (\<lambda>a. scheduled_at a = t \<and> status a = Confirmed) xs)) > 0)
      \<longleftrightarrow> filter (\<lambda>a. scheduled_at a = t \<and> status a = Confirmed) xs \<noteq> []"
    by blast
  also have "\<dots> \<longleftrightarrow> (\<exists>a\<in>set xs. scheduled_at a = t \<and> status a = Confirmed)"
    by (simp add: filter_empty_conv)
  finally show ?thesis using k by simp
qed


section \<open>The paths through the confirm handler\<close>

lemma confirm_handler_cases [case_names invalid no_user no_session decline check_failed
    conflict insert_failed confirmed]:
  assumes "\<And>r. validate_confirm ev rq = Inl r \<Longrightarrow> confirm_handler ev d rq = (r, d) \<Longrightarrow> P"
    and "\<And>s e d1. validate_confirm ev rq = Inr s \<Longrightarrow>
           upsertUser ev d (sub_or_default (cr_sub rq)) = (Inl e, d1) \<Longrightarrow>
           confirm_handler ev d rq = (server_error, d1) \<Longrightarrow> P"
    and "\<And>s userId d1 e d2. validate_confirm ev rq = Inr s \<Longrightarrow>
           upsertUser ev d (sub_or_default (cr_sub rq)) = (Inr userId, d1) \<Longrightarrow>
           ensureSession ev d1 userId (cr_session_id rq) = (Inl e, d2) \<Longrightarrow>
           confirm_handler ev d rq = (server_error, d2) \<Longrightarrow> P"
    and "\<And>s userId d1 sid d2. validate_confirm ev rq = Inr s \<Longrightarrow>
           upsertUser ev d (sub_or_default (cr_sub rq)) = (Inr userId, d1) \<Longrightarrow>
           ensureSession ev d1 userId (cr_session_id rq) = (Inr sid, d2) \<Longrightarrow>
           \<not> truthy (cr_confirm rq) \<Longrightarrow>
           confirm_handler ev d rq =
             (declined, logMessage ev Q_logDecline d2 userId (cr_session_id rq)
                          ''assistant'' decline_content (decline_meta s)) \<Longrightarrow> P"
    and "\<And>s userId d1 sid d2 e d3. validate_confirm ev rq = Inr s \<Longrightarrow>
           upsertUser ev d (sub_or_default (cr_sub rq)) = (Inr userId, d1) \<Longrightarrow>
           ensureSession ev d1 userId (cr_session_id rq) = (Inr sid, d2) \<Longrightarrow>
           truthy (cr_confirm rq) \<Longrightarrow>
           query ev Q_conflictCheck d2 (sql_conflict_check ev s) = (Inl e, d3) \<Longrightarrow>
           confirm_handler ev d rq = (server_error, d3) \<Longrightarrow> P"
    and "\<And>s userId d1 sid d2 rowCount d3. validate_confirm ev rq = Inr s \<Longrightarrow>
           upsertUser ev d (sub_or_default (cr_sub rq)) = (Inr userId, d1) \<Longrightarrow>
           ensureSession ev d1 userId (cr_session_id rq) = (Inr sid, d2) \<Longrightarrow>
           truthy (cr_confirm rq) \<Longrightarrow>
           query ev Q_conflictCheck d2 (sql_conflict_check ev s) = (Inr rowCount, d3) \<Longrightarrow>
           rowCount > 0 \<Longrightarrow>
           confirm_handler ev d rq = (conflict, d3) \<Longrightarrow> P"
    and "\<And>s userId d1 sid d2 d3 e d4. validate_confirm ev rq = Inr s \<Longrightarrow>
           upsertUser ev d (sub_or_default (cr_sub rq)) = (Inr userId, d1) \<Longrightarrow>
           ensureSession ev d1 userId (cr_session_id rq) = (Inr sid, d2) \<Longrightarrow>
           truthy (cr_confirm rq) \<Longrightarrow>
           query ev Q_conflictCheck d2 (sql_conflict_check ev s) = (Inr 0, d3) \<Longrightarrow>
           query ev Q_insertAppointment d3 (sql_insert_appointment ev userId s) = (Inl e, d4) \<Longrightarrow>
           confirm_handler ev d rq = (server_error, d4) \<Longrightarrow> P"
    and "\<And>s userId d1 sid d2 d3 a d4. validate_confirm ev rq = Inr s \<Longrightarrow>
           upsertUser ev d (sub_or_default (cr_sub rq)) = (Inr userId, d1) \<Longrightarrow>
           ensureSession ev d1 userId (cr_session_id rq) = (Inr sid, d2) \<Longrightarrow>
           truthy (cr_confirm rq) \<Longrightarrow>
           query ev Q_conflictCheck d2 (sql_conflict_check ev s) = (Inr 0, d3) \<Longrightarrow>
           query ev Q_insertAppointment d3 (sql_insert_appointment ev userId s) = (Inr a, d4) \<Longrightarrow>
           confirm_handler ev d rq =
             (confirmed ev a s,
              logMessage ev Q_logConfirmation d4 userId (cr_session_id rq)
                ''assistant'' (confirm_content ev s) (confirm_meta a)) \<Longrightarrow> P"
  shows P
proof (cases "validate_confirm ev rq")
  case (Inl r)
  then show ?thesis using assms(1) by (simp add: confirm_handler_def)
next
  case (Inr s)
  obtain r1 d1 where u: "upsertUser ev d (sub_or_default (cr_sub rq)) = (r1, d1)"
    by (cases "upsertUser ev d (sub_or_default (cr_sub rq))")
  show ?thesis
  proof (cases r1)
    case (Inl e)
    with Inr u show ?thesis using assms(2) by (simp add: confirm_handler_def)
  next
    case r1: (Inr userId)
    obtain r2 d2 where e: "ensureSession ev d1 userId (cr_session_id rq) = (r2, d2)"
      by (cases "ensureSession ev d1 userId (cr_session_id rq)")
    show ?thesis
    proof (cases r2)
      case (Inl e2)
      with Inr u r1 e show ?thesis using assms(3) by (simp add: confirm_handler_def)
    next
      case r2: (Inr sid)
      show ?thesis
      proof (cases "truthy (cr_confirm rq)")
        case False
        with Inr u r1 e r2 show ?thesis using assms(4) by (simp add: confirm_handler_def)
      next
        case True
        obtain r3 d3 where c: "query ev Q_conflictCheck d2 (sql_conflict_check ev s) = (r3, d3)"
          by (cases "query ev Q_conflictCheck d2 (sql_conflict_check ev s)")
        show ?thesis
        proof (cases r3)
          case (Inl e3)
          with Inr u r1 e r2 True c show ?thesis using assms(5) by (simp add: confirm_handler_def)
        next
          case r3: (Inr rowCount)
          show ?thesis
          proof (cases "rowCount > 0")
            case pos: True
            with Inr u r1 e r2 True c r3 show ?thesis
              using assms(6) by (simp add: confirm_handler_def)
          next
            case zero: False
            obtain r4 d4 where
              i: "query ev Q_insertAppointment d3 (sql_insert_appointment ev userId s) = (r4, d4)"
              by (cases "query ev Q_insertAppointment d3 (sql_insert_appointment ev userId s)")
            show ?thesis
            proof (cases r4)
              case (Inl e4)
              with Inr u r1 e r2 True c r3 zero i show ?thesis
                using assms(7) by (simp add: confirm_handler_def)
            next
              case (Inr a)
              with \<open>validate_confirm ev rq = Inr s\<close> u r1 e r2 True c r3 zero i show ?thesis
                using assms(8) by (simp add: confirm_handler_def)
            qed
          qed
        qed
      qed
    qed
  qed
qed


section \<open>Validation of a confirmation\<close>

lemma validate_confirm_rejects:
  assumes "\<not> truthy_str (cr_scheduled_at rq) \<or>
     (\<exists>s. cr_scheduled_at rq = Some s \<and>
         (js_Date ev s = None \<or> (\<exists>t. js_Date ev s = Some t \<and> t \<le> js_now ev)))"
  shows "\<exists>msg. validate_confirm ev rq = Inl (bad_request msg)"
  using assms by (auto simp: validate_confirm_def truthy_str_def split: option.splits)

text \<open>
  What the head of the handler does reject: a confirm request whose \<open>scheduled_at\<close> is
  missing or empty, one that \<open>new Date(scheduled_at)\<close> cannot read, or one that it reads
  as a time not after the current time, is answered 400 and not with the 409 conflict;
  the handler returns before any query, so the database, with the record of the
  statements sent to it, is unchanged, and the response is the same whatever the database
  holds and however it would have answered.
\<close>

lemma unreadable_scheduled_at_rejected:
  assumes "\<not> truthy_str (cr_scheduled_at rq) \<or>
     (\<exists>s. cr_scheduled_at rq = Some s \<and>
         (js_Date ev s = None \<or> (\<exists>t. js_Date ev s = Some t \<and> t \<le> js_now ev)))"
  shows "http_status (fst (confirm_handler ev d rq)) = 400 \<and>
         fst (confirm_handler ev d rq) \<noteq> conflict \<and>
         snd (confirm_handler ev d rq) = d \<and>
         fst (confirm_handler (ev\<lparr>faults := f, pg_timestamp := g\<rparr>) d' rq)
           = fst (confirm_handler ev d rq)"
proof -
  from validate_confirm_rejects[OF assms] obtain msg
    where v: "validate_confirm ev rq = Inl (bad_request msg)" by blast
  have "validate_confirm (ev\<lparr>faults := f, pg_timestamp := g\<rparr>) rq = validate_confirm ev rq"
    by (simp add: validate_confirm_def cong: option.case_cong)
  with v show ?thesis
    by (simp add: confirm_handler_def bad_request_def conflict_def)
qed

text \<open>
  The format itself is not checked: whatever \<open>Date\<close> reads as a time after the current
  time passes validation, and the string goes to the database as it is. When PostgreSQL
  cannot read it, the conflict check fails and the request is answered with the 500;
  when PostgreSQL reads it and the slot is free, the appointment is inserted.
\<close>

lemma readable_scheduled_at_passes:
  assumes "cr_session_id rq = Some tok" "tok \<noteq> []" "cr_scheduled_at rq = Some s" "s \<noteq> []"
    and "js_Date ev s = Some t" "js_now ev < t"
  shows "validate_confirm ev rq = Inr s"
  using assms by (simp add: validate_confirm_def truthy_str_def)

lemma unreadable_timestamp_is_server_error:
  assumes v: "validate_confirm ev rq = Inr s"
    and c: "truthy (cr_confirm rq)"
    and nf: "\<not> faults ev Q_upsertUser" "\<not> faults ev Q_findSession"
            "\<not> faults ev Q_insertSession"
    and pg: "pg_timestamp ev s = None"
  shows "fst (confirm_handler ev d rq) = server_error \<and>
         appointments (snd (confirm_handler ev d rq)) = appointments d"
proof -
  from upsertUser_succeeds[OF nf(1)] obtain userId d1
    where u: "upsertUser ev d (sub_or_default (cr_sub rq)) = (Inr userId, d1)" by blast
  from ensureSession_succeeds[OF nf(2,3)] obtain sid d2
    where e: "ensureSession ev d1 userId (cr_session_id rq) = (Inr sid, d2)" by blast
  have q: "fst (query ev Q_conflictCheck d2 (sql_conflict_check ev s)) = Inl
             (if faults ev Q_conflictCheck then ConnectionError else InvalidDatetime)"
    using pg by (simp add: query_def Let_def sql_conflict_check_def)
  obtain r3 d3 where c3: "query ev Q_conflictCheck d2 (sql_conflict_check ev s) = (r3, d3)"
    by (cases "query ev Q_conflictCheck d2 (sql_conflict_check ev s)")
  from upsertUser_frameD[OF u] ensureSession_frameD[OF e] conflict_check_frameD[OF c3]
  have a: "appointments d3 = appointments d" by simp
  from q c3 v c u e a show ?thesis by (simp add: confirm_handler_def)
qed

text \<open>
  C4. A \<open>scheduled_at\<close> that is not a valid ISO-8601 instant, as
  \<open>2030-10-07T10:00:00Z\<close> is, is not always rejected with a 400: the handler takes
  whatever \<open>Date\<close> reads. \<open>October 7, 2030 10:00:00\<close> is not in the format; the request is answered 200 \<open>confirmed\<close> and the appointment is
  created. \<open>2030-02-30T10:00:00Z\<close> is no date of the calendar; the request reaches the
  database, which rejects the string at the conflict check, and is answered with the 500
  \<open>server_error\<close>.
\<close>

theorem scheduled_at_format_unchecked:
  "spec_iso8601_instant ''2030-10-07T10:00:00Z'' \<and>
   \<not> spec_iso8601_instant ''October 7, 2030 10:00:00'' \<and>
   http_status (fst (confirm_handler lenient_env empty_db
                       (confirm_of ''session-a'' ''October 7, 2030 10:00:00''))) = 200 \<and>
   get_prop (Some (body (fst (confirm_handler lenient_env empty_db
                       (confirm_of ''session-a'' ''October 7, 2030 10:00:00''))))) ''status''
     = Some (JStr ''confirmed'') \<and>
   map scheduled_at (appointments (snd (confirm_handler lenient_env empty_db
                       (confirm_of ''session-a'' ''October 7, 2030 10:00:00''))))
     = [1917597600000] \<and>
   \<not> spec_iso8601_instant ''2030-02-30T10:00:00Z'' \<and>
   fst (confirm_handler lenient_env empty_db
          (confirm_of ''session-a'' ''2030-02-30T10:00:00Z'')) = server_error \<and>
   http_status server_error = 500 \<and>
   Q_conflictCheck \<in> set (statements (snd (confirm_handler lenient_env empty_db
          (confirm_of ''session-a'' ''2030-02-30T10:00:00Z''))))"
  by (simp add: eval_defs iso_eval lenient_env_def lenient_Date_def lenient_timestamp_def
        confirmed_def server_error_def)


section \<open>A confirmation for a slot that is taken\<close>

text \<open>
  C3, as the code has it. The handler finds a collision by a query of its own before the
  insert: a confirmation that passes validation, whose user, session and conflict-check
  queries succeed, and whose time is the key of a confirmed appointment, is answered with
  the 409 conflict, which differs from the 500 of a failure; the appointments table is
  unchanged, and the last statement sent is the conflict check, no insert.
\<close>

theorem booked_slot_conflict:
  assumes v: "validate_confirm ev rq = Inr s"
    and c: "truthy (cr_confirm rq)"
    and nf: "\<not> faults ev Q_upsertUser" "\<not> faults ev Q_findSession"
            "\<not> faults ev Q_insertSession" "\<not> faults ev Q_conflictCheck"
    and pg: "pg_timestamp ev s = Some t"
    and booked: "t \<in> set (confirmed_keys (appointments d))"
  shows "fst (confirm_handler ev d rq) = conflict \<and>
         http_status conflict = 409 \<and>
         conflict \<noteq> server_error \<and>
         appointments (snd (confirm_handler ev d rq)) = appointments d \<and>
         (\<exists>xs. statements (snd (confirm_handler ev d rq)) = statements d @ xs @ [Q_conflictCheck] \<and>
               set xs \<subseteq> {Q_upsertUser, Q_findSession, Q_insertSession})"
proof -
  obtain r1 d1 where u: "upsertUser ev d (sub_or_default (cr_sub rq)) = (r1, d1)"
    by (cases "upsertUser ev d (sub_or_default (cr_sub rq))")
  from u nf(1) obtain userId where r1: "r1 = Inr userId"
    by (auto simp: upsertUser_def query_def Let_def sql_upsert_user_def split: option.splits)
  have d1: "d1 = snd (upsertUser ev d (sub_or_default (cr_sub rq)))" using u by simp
  obtain r2 d2 where e: "ensureSession ev d1 userId (cr_session_id rq) = (r2, d2)"
    by (cases "ensureSession ev d1 userId (cr_session_id rq)")
  from e nf(2,3) obtain sid where r2: "r2 = Inr sid"
    by (auto simp: ensureSession_def query_def Let_def sql_find_session_def
          sql_insert_session_def split: option.splits if_splits)
  have d2: "d2 = snd (ensureSession ev d1 userId (cr_session_id rq))" using e by simp
  have a2: "appointments d2 = appointments d"
    by (simp add: d2 d1 ensureSession_appointments upsertUser_appointments)
  from ensureSession_frame(4)[of ev d1 userId "cr_session_id rq"] obtain ys
    where ys: "statements d2 = statements d1 @ ys" "set ys \<subseteq> {Q_findSession, Q_insertSession}"
    unfolding d2 by blast
  have s1: "statements d1 = statements d @ [Q_upsertUser]"
    by (simp add: d1 upsertUser_frame)
  have q: "query ev Q_conflictCheck d2 (sql_conflict_check ev s) =
             (Inr (length (take 1 (filter (\<lambda>a. scheduled_at a = t \<and> status a = Confirmed)
                                      (appointments d)))),
              d2\<lparr>statements := statements d2 @ [Q_conflictCheck]\<rparr>)"
    using nf(4) pg a2 by (simp add: query_def Let_def sql_conflict_check_def)
  have h: "confirm_handler ev d rq = (conflict, d2\<lparr>statements := statements d2 @ [Q_conflictCheck]\<rparr>)"
    using v c u r1 e r2 q booked rowCount_pos[of t "appointments d"]
    by (simp add: confirm_handler_def)
  have "statements d2 @ [Q_conflictCheck] = statements d @ (Q_upsertUser # ys) @ [Q_conflictCheck]"
    using ys s1 by simp
  moreover have "set (Q_upsertUser # ys) \<subseteq> {Q_upsertUser, Q_findSession, Q_insertSession}"
    using ys by auto
  ultimately show ?thesis
    using h a2 by (auto simp: conflict_def server_error_def)
qed


section \<open>A decline\<close>

text \<open>
  C10, as the code has it. A request with a falsy \<open>confirm\<close> sends neither the conflict
  check nor the insert: the appointments table and its sequence are unchanged. It sends
  at most the user upsert, the session lookup, the session insert and the insert of the
  decline turn, and \<open>chat_messages\<close> is unchanged or longer by the one assistant turn that
  records the declined time; when the request passes validation and these queries
  succeed, the response is \<open>declined\<close> and exactly that turn is appended; when the
  response is not \<open>declined\<close> or the insert of the turn fails, none is.
\<close>

theorem decline_leaves_appointments:
  assumes "\<not> truthy (cr_confirm rq)"
  shows "appointments (snd (confirm_handler ev d rq)) = appointments d \<and>
         appointments_id_seq (snd (confirm_handler ev d rq)) = appointments_id_seq d \<and>
         (\<exists>xs. statements (snd (confirm_handler ev d rq)) = statements d @ xs \<and>
               set xs \<subseteq> {Q_upsertUser, Q_findSession, Q_insertSession, Q_logDecline}) \<and>
         (chat_messages (snd (confirm_handler ev d rq)) = chat_messages d \<or>
          (\<exists>userId tok s.
              cr_session_id rq = Some tok \<and> cr_scheduled_at rq = Some s \<and>
              fst (confirm_handler ev d rq) = declined \<and>
              chat_messages (snd (confirm_handler ev d rq)) =
                chat_messages d @ [decline_turn_row userId tok s])) \<and>
         (validate_confirm ev rq = Inr s' \<and> \<not> faults ev Q_upsertUser \<and>
          \<not> faults ev Q_findSession \<and> \<not> faults ev Q_insertSession \<and>
          \<not> faults ev Q_logDecline \<longrightarrow>
            fst (confirm_handler ev d rq) = declined \<and>
            (\<exists>userId tok.
                chat_messages (snd (confirm_handler ev d rq)) =
                  chat_messages d @ [decline_turn_row userId tok s'])) \<and>
         (fst (confirm_handler ev d rq) \<noteq> declined \<or> faults ev Q_logDecline \<longrightarrow>
            chat_messages (snd (confirm_handler ev d rq)) = chat_messages d)"
proof (cases rule: confirm_handler_cases[of ev rq d])
  case (invalid r)
  then show ?thesis by simp
next
  case (no_user s e d1)
  from upsertUser_frameD[OF no_user(2)] no_user(2,3)
    upsertUser_succeeds[of ev d "sub_or_default (cr_sub rq)"]
  show ?thesis by auto
next
  case (no_session s userId d1 e d2)
  from upsertUser_frameD[OF no_session(2)] ensureSession_frameD[OF no_session(3)] no_session(3,4)
    ensureSession_succeeds[of ev d1 userId "cr_session_id rq"]
  show ?thesis by auto
next
  case (decline s userId d1 sid d2)
  from decline(1) have sch: "cr_scheduled_at rq = Some s"
    by (auto simp: validate_confirm_def split: if_splits option.splits)
  from decline(1) obtain tok where tok: "cr_session_id rq = Some tok"
    by (auto simp: validate_confirm_def truthy_str_def split: if_splits option.splits)
  from upsertUser_frameD[OF decline(2)] ensureSession_frameD[OF decline(3)] decline(1,5) sch tok
  show ?thesis
    by (auto simp: logMessage_frame logMessage_appointments logMessage_chat_messages
          decline_turn_row_def)
qed (use assms in simp_all)


section \<open>The turns a message appends\<close>

lemma message_handler_answered:
  assumes m: "mr_message rq = Some (JStr m)" "m \<noteq> []" "js_trim ev m \<noteq> []"
    and nf: "\<not> faults ev Q_upsertUser" "\<not> faults ev Q_findSession" "\<not> faults ev Q_insertSession"
  shows "\<exists>userId.
           fst (message_handler ev py d rq) =
             (case py of Py_json data \<Rightarrow> message_ok data | _ \<Rightarrow> message_failed) \<and>
           chat_messages (snd (message_handler ev py d rq)) =
             chat_messages d @
             (case mr_session_id rq of
                None \<Rightarrow> []
              | Some tok \<Rightarrow>
                  (if faults ev Q_logUserMessage then []
                   else [user_turn_row userId tok (js_trim ev m)]) @
                  (case py of
                     Py_json data \<Rightarrow>
                       if faults ev Q_logAssistantReply then []
                       else [assistant_turn_row userId tok data]
                   | _ \<Rightarrow> []))"
proof -
  from upsertUser_succeeds[OF nf(1)] obtain userId d1
    where u: "upsertUser ev d (sub_or_default (mr_sub rq)) = (Inr userId, d1)" by blast
  from ensureSession_succeeds[OF nf(2,3)] obtain sid d2
    where e: "ensureSession ev d1 userId (mr_session_id rq) = (Inr sid, d2)" by blast
  have d1: "d1 = snd (upsertUser ev d (sub_or_default (mr_sub rq)))" using u by simp
  have d2: "d2 = snd (ensureSession ev d1 userId (mr_session_id rq))" using e by simp
  have c2: "chat_messages d2 = chat_messages d"
    by (simp add: d2 ensureSession_frame) (simp add: d1 upsertUser_frame)
  have "fst (message_handler ev py d rq) =
             (case py of Py_json data \<Rightarrow> message_ok data | _ \<Rightarrow> message_failed) \<and>
           chat_messages (snd (message_handler ev py d rq)) =
             chat_messages d @
             (case mr_session_id rq of
                None \<Rightarrow> []
              | Some tok \<Rightarrow>
                  (if faults ev Q_logUserMessage then []
                   else [user_turn_row userId tok (js_trim ev m)]) @
                  (case py of
                     Py_json data \<Rightarrow>
                       if faults ev Q_logAssistantReply then []
                       else [assistant_turn_row userId tok data]
                   | _ \<Rightarrow> []))"
    using m u e c2
    by (simp add: message_handler_def Let_def logMessage_chat_messages user_turn_row_def
          assistant_turn_row_def split: py_reply.splits option.splits)
  then show ?thesis by blast
qed

text \<open>
  C7, as the code has it. A message request with a session id and a message that is not
  empty once trimmed, whose user, session and turn inserts succeed: when the Python
  service answers with JSON, the response is \<open>{ok: true, data}\<close> and exactly two turns are
  appended, the user's and then the assistant's; when the service cannot be reached or
  does not answer with ok JSON, the response is the 500 and only the user's turn is
  appended.
\<close>

theorem message_appends_turns:
  assumes "mr_message rq = Some (JStr m)" "m \<noteq> []" "js_trim ev m \<noteq> []"
    and "\<not> faults ev Q_upsertUser" "\<not> faults ev Q_findSession" "\<not> faults ev Q_insertSession"
    and "mr_session_id rq = Some tok"
    and "\<not> faults ev Q_logUserMessage" "\<not> faults ev Q_logAssistantReply"
  shows "\<exists>userId.
           (case py of
              Py_json data \<Rightarrow>
                fst (message_handler ev py d rq) = message_ok data \<and>
                chat_messages (snd (message_handler ev py d rq)) =
                  chat_messages d @
                  [user_turn_row userId tok (js_trim ev m), assistant_turn_row userId tok data]
            | _ \<Rightarrow>
                fst (message_handler ev py d rq) = message_failed \<and>
                chat_messages (snd (message_handler ev py d rq)) =
                  chat_messages d @ [user_turn_row userId tok (js_trim ev m)])"
proof -
  from message_handler_answered[OF assms(1-6), of py d] obtain userId where
    "fst (message_handler ev py d rq) =
             (case py of Py_json data \<Rightarrow> message_ok data | _ \<Rightarrow> message_failed) \<and>
           chat_messages (snd (message_handler ev py d rq)) =
             chat_messages d @
             (case mr_session_id rq of
                None \<Rightarrow> []
              | Some tok \<Rightarrow>
                  (if faults ev Q_logUserMessage then []
                   else [user_turn_row userId tok (js_trim ev m)]) @
                  (case py of
                     Py_json data \<Rightarrow>
                       if faults ev Q_logAssistantReply then []
                       else [assistant_turn_row userId tok data]
                   | _ \<Rightarrow> []))"
    by blast
  with assms(7-9) have
    "(case py of
              Py_json data \<Rightarrow>
                fst (message_handler ev py d rq) = message_ok data \<and>
                chat_messages (snd (message_handler ev py d rq)) =
                  chat_messages d @
                  [user_turn_row userId tok (js_trim ev m), assistant_turn_row userId tok data]
            | _ \<Rightarrow>
                fst (message_handler ev py d rq) = message_failed \<and>
                chat_messages (snd (message_handler ev py d rq)) =
                  chat_messages d @ [user_turn_row userId tok (js_trim ev m)])"
    by (simp split: py_reply.splits)
  then show ?thesis by blast
qed


section \<open>Failures of the store\<close>

lemma confirmed_means_inserted:
  assumes "http_status (fst (confirm_handler ev d rq)) = 200" and "truthy (cr_confirm rq)"
  shows "\<exists>a s. appointments (snd (confirm_handler ev d rq)) = appointments d @ [a] \<and>
               status a = Confirmed \<and> cr_scheduled_at rq = Some s \<and>
               pg_timestamp ev s = Some (scheduled_at a) \<and>
               fst (confirm_handler ev d rq) = confirmed ev a s"
proof (cases rule: confirm_handler_cases[of ev rq d])
  case (invalid r)
  then show ?thesis using assms(1)
    by (auto simp: validate_confirm_def bad_request_def split: if_splits option.splits)
next
  case (confirmed s userId d1 sid d2 d3 a d4)
  from confirmed(1) have sch: "cr_scheduled_at rq = Some s"
    by (auto simp: validate_confirm_def split: if_splits option.splits)
  from upsertUser_frameD[OF confirmed(2)] ensureSession_frameD[OF confirmed(3)]
    conflict_check_frameD[OF confirmed(5)] insert_appointment_frameD[OF confirmed(6)]
    confirmed(7) sch
  show ?thesis by (simp add: logMessage_appointments)
qed (use assms in \<open>simp_all add: server_error_def conflict_def\<close>)

lemma log_failures_leave_transcript:
  assumes "faults ev Q_logDecline" "faults ev Q_logConfirmation"
  shows "chat_messages (snd (confirm_handler ev d rq)) = chat_messages d"
proof (cases rule: confirm_handler_cases[of ev rq d])
  case (invalid r)
  then show ?thesis by simp
next
  case (no_user s e d1)
  from upsertUser_frameD[OF no_user(2)] no_user(3) show ?thesis by simp
next
  case (no_session s userId d1 e d2)
  from upsertUser_frameD[OF no_session(2)] ensureSession_frameD[OF no_session(3)] no_session(4)
  show ?thesis by simp
next
  case (decline s userId d1 sid d2)
  from upsertUser_frameD[OF decline(2)] ensureSession_frameD[OF decline(3)] decline(5) assms
  show ?thesis by (simp add: logMessage_chat_messages split: option.splits)
next
  case (check_failed s userId d1 sid d2 e d3)
  from upsertUser_frameD[OF check_failed(2)] ensureSession_frameD[OF check_failed(3)]
    conflict_check_frameD[OF check_failed(5)] check_failed(6)
  show ?thesis by simp
next
  case (conflict s userId d1 sid d2 rowCount d3)
  from upsertUser_frameD[OF conflict(2)] ensureSession_frameD[OF conflict(3)]
    conflict_check_frameD[OF conflict(5)] conflict(7)
  show ?thesis by simp
next
  case (insert_failed s userId d1 sid d2 d3 e d4)
  from upsertUser_frameD[OF insert_failed(2)] ensureSession_frameD[OF insert_failed(3)]
    conflict_check_frameD[OF insert_failed(5)] insert_appointment_frameD[OF insert_failed(6)]
    insert_failed(7)
  show ?thesis by simp
next
  case (confirmed s userId d1 sid d2 d3 a d4)
  from upsertUser_frameD[OF confirmed(2)] ensureSession_frameD[OF confirmed(3)]
    conflict_check_frameD[OF confirmed(5)] insert_appointment_frameD[OF confirmed(6)]
    confirmed(7) assms
  show ?thesis by (simp add: logMessage_chat_messages split: option.splits)
qed

text \<open>
  C8, as the code has it. A failed append of a turn is swallowed by \<open>logMessage\<close>: a
  message that the service answers is reported as processed whether or not its turns were
  stored, the store holding exactly the turns whose insert succeeded, none when the
  request has no session id; and a confirm request whose turn inserts fail leaves the
  transcript as it was. A confirmation is reported (200 with a truthy \<open>confirm\<close>) only
  when the appointment row has been inserted.
\<close>

theorem failed_append_is_swallowed:
  assumes "mr_message rq = Some (JStr m)" "m \<noteq> []" "js_trim ev m \<noteq> []"
    and "\<not> faults ev Q_upsertUser" "\<not> faults ev Q_findSession" "\<not> faults ev Q_insertSession"
  shows "(\<exists>userId.
            fst (message_handler ev (Py_json data) d rq) = message_ok data \<and>
            chat_messages (snd (message_handler ev (Py_json data) d rq)) =
              chat_messages d @
              (case mr_session_id rq of
                 None \<Rightarrow> []
               | Some tok \<Rightarrow>
                   (if faults ev Q_logUserMessage then []
                    else [user_turn_row userId tok (js_trim ev m)]) @
                   (if faults ev Q_logAssistantReply then []
                    else [assistant_turn_row userId tok data]))) \<and>
         (faults ev' Q_logDecline \<and> faults ev' Q_logConfirmation \<longrightarrow>
            chat_messages (snd (confirm_handler ev' d' crq)) = chat_messages d') \<and>
         (http_status (fst (confirm_handler ev' d' crq)) = 200 \<and> truthy (cr_confirm crq) \<longrightarrow>
            (\<exists>a. appointments (snd (confirm_handler ev' d' crq)) = appointments d' @ [a] \<and>
                 status a = Confirmed))"
proof -
  from message_handler_answered[OF assms, of "Py_json data" d]
  have "\<exists>userId.
            fst (message_handler ev (Py_json data) d rq) = message_ok data \<and>
            chat_messages (snd (message_handler ev (Py_json data) d rq)) =
              chat_messages d @
              (case mr_session_id rq of
                 None \<Rightarrow> []
               | Some tok \<Rightarrow>
                   (if faults ev Q_logUserMessage then []
                    else [user_turn_row userId tok (js_trim ev m)]) @
                   (if faults ev Q_logAssistantReply then []
                    else [assistant_turn_row userId tok data]))"
    by (cases "mr_session_id rq") simp_all
  moreover have "faults ev' Q_logDecline \<and> faults ev' Q_logConfirmation \<longrightarrow>
            chat_messages (snd (confirm_handler ev' d' crq)) = chat_messages d'"
    using log_failures_leave_transcript by blast
  moreover have "http_status (fst (confirm_handler ev' d' crq)) = 200 \<and> truthy (cr_confirm crq) \<longrightarrow>
            (\<exists>a. appointments (snd (confirm_handler ev' d' crq)) = appointments d' @ [a] \<and>
                 status a = Confirmed)"
    using confirmed_means_inserted[of ev' d' crq] by blast
  ultimately show ?thesis by blast
qed


section \<open>The extractor's fallback\<close>

text \<open>
  C9. When the generative backend fails (timeout, malformed output, quota or error), the
  service answers with the result of the deterministic strategy, tagged as a fallback,
  and the message request whose user and session queries succeed is answered 200 with
  \<open>ok: true\<close> and that result as its \<open>data\<close>: the reply, intent, candidate and
  confirmation flag the deterministic strategy gave for the trimmed message, and no
  error.
\<close>

theorem backend_failure_falls_back:
  assumes "backend = Backend_timeout \<or> backend = Backend_malformed_output \<or>
           backend = Backend_quota_or_error"
    and "mr_message rq = Some (JStr m)" "m \<noteq> []" "js_trim ev m \<noteq> []"
    and "\<not> faults ev Q_upsertUser" "\<not> faults ev Q_findSession" "\<not> faults ev Q_insertSession"
  shows "fst (message_handler ev (simulate det Generative backend (js_trim ev m)) d rq) =
           \<lparr>http_status = 200,
            body = JObj [(''ok'', JBool True),
                         (''data'',
                          JObj [(''reply'', JStr (er_reply (det (js_trim ev m)))),
                                (''intent'', JStr (intent_name (er_intent (det (js_trim ev m))))),
                                (''appointment_candidate'',
                                 (case er_candidate (det (js_trim ev m)) of
                                    None \<Rightarrow> JNull
                                  | Some c \<Rightarrow> JStr c)),
                                (''needs_confirmation'',
                                 JBool (er_needs_confirmation (det (js_trim ev m)))),
                                (''confidence_percent'',
                                 JNum (int (er_confidence_percent (det (js_trim ev m))))),
                                (''mode'', JStr ''fallback'')])]\<rparr>"
proof -
  have x: "extractor det Generative backend (js_trim ev m) = (By_fallback, det (js_trim ev m))"
    using assms(1) by (auto simp: extractor_def)
  from upsertUser_succeeds[OF assms(5)] obtain userId d1
    where u: "upsertUser ev d (sub_or_default (mr_sub rq)) = (Inr userId, d1)" by blast
  from ensureSession_succeeds[OF assms(6,7)] obtain sid d2
    where e: "ensureSession ev d1 userId (mr_session_id rq) = (Inr sid, d2)" by blast
  show ?thesis
    using x assms(2-4) u e
    by (simp add: message_handler_def simulate_def Let_def message_ok_def result_json_def
          mode_name_def)
qed


section \<open>The proposal found in the history\<close>

lemma latestProposal_eq:
  "a < length h \<Longrightarrow> latestProposal h a = (find is_proposal (rev (h ! a)), h @ [rev (h ! a)])"
  by (simp add: latestProposal_def spread_def reverse_def array_find_def nth_append)



lemma bar_last:
  assumes "showConfirmationBar ms"
  shows "ms \<noteq> [] \<and> find is_proposal (rev ms) = Some (last ms) \<and>
         spec_pending_proposal ms = Some (last ms)"
proof -
  from assms have ne: "ms \<noteq> []" by (auto simp: showConfirmationBar_def split: if_splits)
  then obtain xs x where ms: "ms = xs @ [x]" by (metis rev_exhaust)
  with assms show ?thesis
    by (auto simp: showConfirmationBar_def is_proposal_def spec_pending_proposal_def)
qed



section \<open>After a decline\<close>

lemma decline_outcome_not_proposal:
  "\<not> is_proposal (decline_outcome now r) \<and>
   \<not> truthy (get_prop (meta (decline_outcome now r)) ''needs_confirmation'')"
  by (cases r)
     (simp_all add: decline_outcome_def is_proposal_def network_error_message_def
        decline_failed_message_def declineMessage_def)

lemma later_turns_gate:
  assumes "\<not> showConfirmationBar ms" and "showConfirmationBar (ms @ later)"
  shows "later \<noteq> [] \<and> fst (latestProposal [ms @ later] 0) = Some (last later)"
proof -
  have ne: "later \<noteq> []" using assms by auto
  with bar_last[OF assms(2)] show ?thesis by (simp add: latestProposal_eq)
qed

lemma declineAppointment_frame:
  "token (declineAppointment now r st) = token st \<and>
   sessionId (declineAppointment now r st) = sessionId st"
  by (simp add: declineAppointment_def split: option.splits)

lemma find_map_preserved:
  assumes "\<And>x. P (f x) = P x"
  shows "find P (map f xs) = map_option f (find P xs)"
  using assms by (induction xs) simp_all

lemma find_append_None: "find P xs = None \<Longrightarrow> find P (xs @ ys) = find P ys"
  by (induction xs) (simp_all split: if_splits)

lemma upsertUser_value:
  "fst (upsertUser ev d sub) =
     (if faults ev Q_upsertUser then Inl ConnectionError
      else Inr (case find (\<lambda>u. email u = sub @ ''@demo.local'') (users d) of
                  Some u \<Rightarrow> user_id u
                | None \<Rightarrow> users_id_seq d))"
  by (simp add: upsertUser_def query_def Let_def sql_upsert_user_def split: option.splits)

lemma upsertUser_user_stored:
  assumes "upsertUser ev d sub = (Inr userId, d1)"
  shows "\<exists>u. find (\<lambda>u. email u = sub @ ''@demo.local'') (users d1) = Some u \<and> user_id u = userId"
proof (cases "find (\<lambda>u. email u = sub @ ''@demo.local'') (users d)")
  case None
  with assms show ?thesis
    by (auto simp: upsertUser_def query_def Let_def sql_upsert_user_def find_append_None
          split: if_splits)
next
  case (Some u)
  have "find (\<lambda>u. email u = sub @ ''@demo.local'')
          (map (\<lambda>x. if email x = sub @ ''@demo.local'' then x\<lparr>name := ''Demo User''\<rparr> else x) (users d))
        = map_option (\<lambda>x. if email x = sub @ ''@demo.local'' then x\<lparr>name := ''Demo User''\<rparr> else x)
            (find (\<lambda>u. email u = sub @ ''@demo.local'') (users d))"
    by (rule find_map_preserved) simp
  with Some assms show ?thesis
    by (auto simp: upsertUser_def query_def Let_def sql_upsert_user_def split: if_splits)
qed

lemma upsertUser_again:
  assumes "upsertUser ev d sub = (Inr userId, d1)" and "users d2 = users d1"
    and "\<not> faults ev2 Q_upsertUser"
  shows "fst (upsertUser ev2 d2 sub) = Inr userId"
  using upsertUser_user_stored[OF assms(1)] assms(2,3) by (auto simp: upsertUser_value)

lemma history_handler_rows:
  "fst (history_handler ev d sub sid) =
     (if sid = [] then History_invalid
      else
        (case fst (upsertUser ev d (sub_or_default sub)) of
           Inl e \<Rightarrow> History_failed
         | Inr userId \<Rightarrow>
             if faults ev Q_selectMessages then History_failed
             else History_ok (session_rows d userId sid)))"
proof -
  obtain r d1 where u: "upsertUser ev d (sub_or_default sub) = (r, d1)"
    by (cases "upsertUser ev d (sub_or_default sub)")
  from upsertUser_frameD[OF u] have "chat_messages d1 = chat_messages d" by simp
  with u show ?thesis
    by (simp add: history_handler_def query_def Let_def sql_select_messages_def
          session_rows_def split: sum.splits)
qed

lemma decline_stored:
  assumes rq: "\<not> truthy (cr_confirm rq)" "cr_session_id rq = Some tok"
              "validate_confirm ev rq = Inr s"
    and nf: "\<not> faults ev Q_upsertUser" "\<not> faults ev Q_findSession" "\<not> faults ev Q_insertSession"
  shows "\<exists>userId d1.
           upsertUser ev d (sub_or_default (cr_sub rq)) = (Inr userId, d1) \<and>
           fst (confirm_handler ev d rq) = declined \<and>
           users (snd (confirm_handler ev d rq)) = users d1 \<and>
           chat_messages (snd (confirm_handler ev d rq)) =
             chat_messages d @
             (if faults ev Q_logDecline then [] else [decline_turn_row userId tok s])"
proof -
  from upsertUser_succeeds[OF nf(1)] obtain userId d1
    where u: "upsertUser ev d (sub_or_default (cr_sub rq)) = (Inr userId, d1)" by blast
  from ensureSession_succeeds[OF nf(2,3)] obtain sid d2
    where e: "ensureSession ev d1 userId (cr_session_id rq) = (Inr sid, d2)" by blast
  from upsertUser_frameD[OF u] ensureSession_frameD[OF e] rq u e
  show ?thesis
    by (simp add: confirm_handler_def logMessage_frame logMessage_chat_messages
          decline_turn_row_def)
qed


text \<open>
  C6, as the code has it. In a session whose confirmation bar is shown, a decline appends
  one assistant message without candidate to the component's history, whatever the
  server answered; the bar is then hidden, and whenever it is shown again later messages
  have arrived and the scan finds the last of them. The declined proposal is not removed
  from the history. The server answers \<open>declined\<close> and stores the decline turn only when
  its insert succeeds: then a reload of the history ends with that turn, and the bar is
  hidden in the same way. When the insert fails, the failure is swallowed, the stored
  history is as before the decline, and a reload shows what it showed before.
\<close>

theorem decline_hides_confirmation_bar:
  assumes st: "token st \<noteq> []" "sessionId st = tok" "showConfirmationBar (messages st)"
    and rq: "\<not> truthy (cr_confirm rq)" "cr_session_id rq = Some tok"
            "validate_confirm ev rq = Inr s"
    and nf: "\<not> faults ev Q_upsertUser" "\<not> faults ev Q_findSession" "\<not> faults ev Q_insertSession"
    and h: "fst (history_handler ev2 d (cr_sub rq) tok) = History_ok rows"
  shows "messages (declineAppointment now r st) = messages st @ [decline_outcome now r] \<and>
         \<not> showConfirmationBar (messages (declineAppointment now r st)) \<and>
         (\<forall>later. showConfirmationBar (messages (declineAppointment now r st) @ later) \<longrightarrow>
            later \<noteq> [] \<and>
            fst (latestProposal [messages (declineAppointment now r st) @ later] 0)
              = Some (last later)) \<and>
         fst (confirm_handler ev d rq) = declined \<and>
         (\<exists>userId.
            messages (reload ev2 (snd (confirm_handler ev d rq)) (cr_sub rq)
                        (declineAppointment now r st)) =
              formattedMessages
                (rows @ (if faults ev Q_logDecline then [] else [decline_turn_row userId tok s]))) \<and>
         (\<not> faults ev Q_logDecline \<longrightarrow>
            \<not> showConfirmationBar
                 (messages (reload ev2 (snd (confirm_handler ev d rq)) (cr_sub rq)
                              (declineAppointment now r st))) \<and>
            (\<forall>later.
                showConfirmationBar
                  (messages (reload ev2 (snd (confirm_handler ev d rq)) (cr_sub rq)
                               (declineAppointment now r st)) @ later) \<longrightarrow>
                later \<noteq> [] \<and>
                fst (latestProposal
                       [messages (reload ev2 (snd (confirm_handler ev d rq)) (cr_sub rq)
                                    (declineAppointment now r st)) @ later] 0)
                  = Some (last later))) \<and>
         (faults ev Q_logDecline \<longrightarrow>
            messages (reload ev2 (snd (confirm_handler ev d rq)) (cr_sub rq)
                        (declineAppointment now r st))
              = messages (reload ev2 d (cr_sub rq) st))"
proof -
  let ?st' = "declineAppointment now r st"
  let ?d' = "snd (confirm_handler ev d rq)"
  from bar_last[OF st(3)] have ne: "messages st \<noteq> []"
    and f: "find is_proposal (rev (messages st)) = Some (last (messages st))" by simp_all
  have m: "messages ?st' = messages st @ [decline_outcome now r]"
    using st(1) f by (simp add: declineAppointment_def)
  have nb: "\<not> showConfirmationBar (messages ?st')"
    using decline_outcome_not_proposal[of now r] by (simp add: m showConfirmationBar_def)
  have tok: "tok \<noteq> []"
    using rq(2,3) by (auto simp: validate_confirm_def truthy_str_def split: if_splits)
  from decline_stored[OF rq nf, of d] obtain userId d1
    where u: "upsertUser ev d (sub_or_default (cr_sub rq)) = (Inr userId, d1)"
      and resp: "fst (confirm_handler ev d rq) = declined"
      and us: "users ?d' = users d1"
      and cm: "chat_messages ?d' = chat_messages d @
                 (if faults ev Q_logDecline then [] else [decline_turn_row userId tok s])"
    by blast
  from h tok have nf2: "\<not> faults ev2 Q_upsertUser" "\<not> faults ev2 Q_selectMessages"
    by (auto simp: history_handler_rows upsertUser_value split: if_splits)
  from u nf(1) nf2(1) have u2: "fst (upsertUser ev2 d (sub_or_default (cr_sub rq))) = Inr userId"
    using upsertUser_value[of ev d "sub_or_default (cr_sub rq)"]
    by (simp add: upsertUser_value)
  from h tok u2 nf2 have rows: "rows = session_rows d userId tok"
    by (simp add: history_handler_rows)
  have u3: "fst (upsertUser ev2 ?d' (sub_or_default (cr_sub rq))) = Inr userId"
    by (rule upsertUser_again[OF u us nf2(1)])
  have sr: "session_rows ?d' userId tok =
              rows @ (if faults ev Q_logDecline then [] else [decline_turn_row userId tok s])"
    by (simp add: session_rows_def cm rows decline_turn_row_def)
  have h': "fst (history_handler ev2 ?d' (cr_sub rq) tok) =
              History_ok (rows @ (if faults ev Q_logDecline then []
                                  else [decline_turn_row userId tok s]))"
    using tok u3 nf2 sr by (simp add: history_handler_rows)
  have ts: "token ?st' \<noteq> []" "sessionId ?st' = tok"
    using declineAppointment_frame[of now r st] st by simp_all
  have after: "messages (reload ev2 ?d' (cr_sub rq) ?st') =
          formattedMessages
            (rows @ (if faults ev Q_logDecline then [] else [decline_turn_row userId tok s]))"
    using ts tok h' by (simp add: reload_def loadConversationHistory_def)
  have before: "messages (reload ev2 d (cr_sub rq) st) = formattedMessages rows"
    using st(1,2) tok h by (simp add: reload_def loadConversationHistory_def)
  have hidden: "\<not> showConfirmationBar (formattedMessages (rows @ [decline_turn_row userId tok s]))"
    by (simp add: showConfirmationBar_def formattedMessages_def decline_turn_row_def
          decline_meta_def or_else_def)
  show ?thesis
    using m nb resp after before hidden later_turns_gate[OF nb]
      later_turns_gate[OF hidden]
    by auto
qed


section \<open>One request alone runs as the handler is written\<close>

lemma complete_Finished: "complete n ev r (Finished x) d = (Finished x, d)"
  by (induction n) (cases r; simp add: step_def)+

lemma confirm_from_branch:
  "complete (Suc (Suc (Suc n))) ev (Confirm_request rq) (C_branch s userId) d2 =
     sent (if \<not> truthy (cr_confirm rq)
           then (declined,
                 logMessage ev Q_logDecline d2 userId (cr_session_id rq)
                   ''assistant'' decline_content (decline_meta s))
           else
             (case query ev Q_conflictCheck d2 (sql_conflict_check ev s) of
                (Inl e, d3) \<Rightarrow> (server_error, d3)
              | (Inr rowCount, d3) \<Rightarrow>
                  if rowCount > 0 then (conflict, d3)
                  else
                    (case query ev Q_insertAppointment d3
                            (sql_insert_appointment ev userId s) of
                       (Inl e, d4) \<Rightarrow> (server_error, d4)
                     | (Inr appointment, d4) \<Rightarrow>
                         (confirmed ev appointment s,
                          logMessage ev Q_logConfirmation d4 userId (cr_session_id rq)
                            ''assistant'' (confirm_content ev s)
                            (confirm_meta appointment)))))"
  by (simp add: step_def sent_def complete_Finished split: prod.splits sum.splits)

lemma confirm_from_session:
  assumes b: "\<And>n d2. complete (Suc (Suc (Suc n))) ev (Confirm_request rq) (C_branch s userId) d2 = B d2"
  shows "complete (Suc (Suc (Suc (Suc (Suc n))))) ev (Confirm_request rq) (C_ensureSession s userId) d1 =
     (case ensureSession ev d1 userId (cr_session_id rq) of
        (Inl e, d2) \<Rightarrow> (Finished server_error, d2)
      | (Inr sid, d2) \<Rightarrow> B d2)"
proof (cases "truthy_str (cr_session_id rq)")
  case False
  then have "ensureSession ev d1 userId (cr_session_id rq) = (Inr None, d1)"
    by (auto simp: ensureSession_def truthy_str_def split: option.splits)
  moreover have "step ev (Confirm_request rq) (C_ensureSession s userId) d1 = (C_branch s userId, d1)"
    using False by (simp add: step_def)
  ultimately show ?thesis
    using b[of "Suc n" d1] by (simp del: complete.simps add: complete.simps(2)[of "Suc (Suc (Suc (Suc n)))"])
next
  case True
  then obtain tok where tok: "cr_session_id rq = Some tok" "tok \<noteq> []"
    by (auto simp: truthy_str_def split: option.splits)
  obtain r d' where f: "query ev Q_findSession d1 (sql_find_session tok) = (r, d')"
    by (cases "query ev Q_findSession d1 (sql_find_session tok)")
  show ?thesis
  proof (cases r)
    case (Inl e)
    with f tok True have
      "ensureSession ev d1 userId (cr_session_id rq) = (Inl e, d')"
      "step ev (Confirm_request rq) (C_ensureSession s userId) d1 = (Finished server_error, d')"
      by (simp_all add: ensureSession_def step_def)
    then show ?thesis
      by (simp del: complete.simps
            add: complete.simps(2)[of "Suc (Suc (Suc (Suc n)))"] complete_Finished)
  next
    case (Inr found)
    show ?thesis
    proof (cases found)
      case (Some sid)
      with Inr f tok True have
        "ensureSession ev d1 userId (cr_session_id rq) = (Inr (Some sid), d')"
        "step ev (Confirm_request rq) (C_ensureSession s userId) d1 = (C_branch s userId, d')"
        by (simp_all add: ensureSession_def step_def)
      then show ?thesis
        using b[of "Suc n" d']
        by (simp del: complete.simps add: complete.simps(2)[of "Suc (Suc (Suc (Suc n)))"])
    next
      case None
      obtain r2 d'' where i: "query ev Q_insertSession d' (sql_insert_session userId tok) = (r2, d'')"
        by (cases "query ev Q_insertSession d' (sql_insert_session userId tok)")
      from None Inr f tok True have
        s1: "step ev (Confirm_request rq) (C_ensureSession s userId) d1 = (C_insertSession s userId, d')"
        by (simp add: step_def)
      show ?thesis
      proof (cases r2)
        case (Inl e)
        with None Inr f i tok True have
          "ensureSession ev d1 userId (cr_session_id rq) = (Inl e, d'')"
          "step ev (Confirm_request rq) (C_insertSession s userId) d' = (Finished server_error, d'')"
          by (simp_all add: ensureSession_def step_def)
        with s1 show ?thesis
          by (simp del: complete.simps
                add: complete.simps(2)[of "Suc (Suc (Suc (Suc n)))"]
                     complete.simps(2)[of "Suc (Suc (Suc n))"] complete_Finished)
      next
        case r2: (Inr sid)
        with None Inr f i tok True have
          "ensureSession ev d1 userId (cr_session_id rq) = (Inr (Some sid), d'')"
          "step ev (Confirm_request rq) (C_insertSession s userId) d' = (C_branch s userId, d'')"
          by (simp_all add: ensureSession_def step_def)
        with s1 show ?thesis
          using b[of n d'']
          by (simp del: complete.simps
                add: complete.simps(2)[of "Suc (Suc (Suc (Suc n)))"]
                     complete.simps(2)[of "Suc (Suc (Suc n))"])
      qed
    qed
  qed
qed

lemma confirm_alone:
  "complete 6 ev (Confirm_request rq) At_start d = sent (confirm_handler ev d rq)"
proof (cases "validate_confirm ev rq")
  case (Inl r)
  then show ?thesis
    by (simp add: eval_nat_numeral step_def confirm_handler_def sent_def complete_Finished
          del: complete.simps add: complete.simps(2)[of "Suc (Suc (Suc (Suc (Suc 0))))"])
next
  case (Inr s)
  obtain r1 d1 where u: "upsertUser ev d (sub_or_default (cr_sub rq)) = (r1, d1)"
    by (cases "upsertUser ev d (sub_or_default (cr_sub rq))")
  show ?thesis
  proof (cases r1)
    case (Inl e)
    with Inr u show ?thesis
      by (simp add: eval_nat_numeral step_def confirm_handler_def sent_def complete_Finished
            del: complete.simps add: complete.simps(2)[of "Suc (Suc (Suc (Suc (Suc 0))))"])
  next
    case r1: (Inr userId)
    have s0: "step ev (Confirm_request rq) At_start d = (C_ensureSession s userId, d1)"
      using Inr u r1 by (simp add: step_def)
    have "complete 6 ev (Confirm_request rq) At_start d =
            complete (Suc (Suc (Suc (Suc (Suc 0))))) ev (Confirm_request rq) (C_ensureSession s userId) d1"
      using s0 by (simp add: eval_nat_numeral del: complete.simps
                     add: complete.simps(2)[of "Suc (Suc (Suc (Suc (Suc 0))))"])
    also have "\<dots> = sent (confirm_handler ev d rq)"
      using Inr u r1
      by (subst confirm_from_session[OF confirm_from_branch])
         (simp add: confirm_handler_def sent_def split: prod.splits sum.splits)
    finally show ?thesis .
  qed
qed

lemma message_from_log:
  "complete (Suc (Suc (Suc n))) ev (Message_request py rq) (M_logUser m userId) d2 =
     sent (let d3 = logMessage ev Q_logUserMessage d2 userId (mr_session_id rq)
                      ''user'' (JStr (js_trim ev m)) (JObj [])
           in (case py of
                 Py_json data \<Rightarrow>
                   (message_ok data,
                    logMessage ev Q_logAssistantReply d3 userId (mr_session_id rq)
                      ''assistant'' (assistantReply data) (assistant_meta data))
               | _ \<Rightarrow> (message_failed, d3)))"
  by (simp add: step_def sent_def complete_Finished Let_def split: py_reply.splits)

lemma message_from_session:
  assumes b: "\<And>n d2. complete (Suc (Suc (Suc n))) ev (Message_request py rq) (M_logUser m userId) d2 = B d2"
  shows "complete (Suc (Suc (Suc (Suc (Suc n))))) ev (Message_request py rq) (M_ensureSession m userId) d1 =
     (case ensureSession ev d1 userId (mr_session_id rq) of
        (Inl e, d2) \<Rightarrow> (Finished message_failed, d2)
      | (Inr sid, d2) \<Rightarrow> B d2)"
proof (cases "truthy_str (mr_session_id rq)")
  case False
  then have "ensureSession ev d1 userId (mr_session_id rq) = (Inr None, d1)"
    by (auto simp: ensureSession_def truthy_str_def split: option.splits)
  moreover have "step ev (Message_request py rq) (M_ensureSession m userId) d1 = (M_logUser m userId, d1)"
    using False by (simp add: step_def)
  ultimately show ?thesis
    using b[of "Suc n" d1]
    by (simp del: complete.simps add: complete.simps(2)[of "Suc (Suc (Suc (Suc n)))"])
next
  case True
  then obtain tok where tok: "mr_session_id rq = Some tok" "tok \<noteq> []"
    by (auto simp: truthy_str_def split: option.splits)
  obtain r d' where f: "query ev Q_findSession d1 (sql_find_session tok) = (r, d')"
    by (cases "query ev Q_findSession d1 (sql_find_session tok)")
  show ?thesis
  proof (cases r)
    case (Inl e)
    with f tok True have
      "ensureSession ev d1 userId (mr_session_id rq) = (Inl e, d')"
      "step ev (Message_request py rq) (M_ensureSession m userId) d1 = (Finished message_failed, d')"
      by (simp_all add: ensureSession_def step_def)
    then show ?thesis
      by (simp del: complete.simps
            add: complete.simps(2)[of "Suc (Suc (Suc (Suc n)))"] complete_Finished)
  next
    case (Inr found)
    show ?thesis
    proof (cases found)
      case (Some sid)
      with Inr f tok True have
        "ensureSession ev d1 userId (mr_session_id rq) = (Inr (Some sid), d')"
        "step ev (Message_request py rq) (M_ensureSession m userId) d1 = (M_logUser m userId, d')"
        by (simp_all add: ensureSession_def step_def)
      then show ?thesis
        using b[of "Suc n" d']
        by (simp del: complete.simps add: complete.simps(2)[of "Suc (Suc (Suc (Suc n)))"])
    next
      case None
      obtain r2 d'' where i: "query ev Q_insertSession d' (sql_insert_session userId tok) = (r2, d'')"
        by (cases "query ev Q_insertSession d' (sql_insert_session userId tok)")
      from None Inr f tok True have
        s1: "step ev (Message_request py rq) (M_ensureSession m userId) d1 = (M_insertSession m userId, d')"
        by (simp add: step_def)
      show ?thesis
      proof (cases r2)
        case (Inl e)
        with None Inr f i tok True have
          "ensureSession ev d1 userId (mr_session_id rq) = (Inl e, d'')"
          "step ev (Message_request py rq) (M_insertSession m userId) d' = (Finished message_failed, d'')"
          by (simp_all add: ensureSession_def step_def)
        with s1 show ?thesis
          by (simp del: complete.simps
                add: complete.simps(2)[of "Suc (Suc (Suc (Suc n)))"]
                     complete.simps(2)[of "Suc (Suc (Suc n))"] complete_Finished)
      next
        case r2: (Inr sid)
        with None Inr f i tok True have
          "ensureSession ev d1 userId (mr_session_id rq) = (Inr (Some sid), d'')"
          "step ev (Message_request py rq) (M_insertSession m userId) d' = (M_logUser m userId, d'')"
          by (simp_all add: ensureSession_def step_def)
        with s1 show ?thesis
          using b[of n d'']
          by (simp del: complete.simps
                add: complete.simps(2)[of "Suc (Suc (Suc (Suc n)))"]
                     complete.simps(2)[of "Suc (Suc (Suc n))"])
      qed
    qed
  qed
qed

lemma message_rejected:
  assumes "\<And>m. mr_message rq = Some (JStr m) \<Longrightarrow> m = [] \<or> js_trim ev m = []"
  shows "message_handler ev py d rq = (bad_message, d)"
    and "step ev (Message_request py rq) At_start d = (Finished bad_message, d)"
  using assms
  by (auto simp: message_handler_def step_def split: option.splits json.splits)

lemma message_alone:
  "complete 6 ev (Message_request py rq) At_start d = sent (message_handler ev py d rq)"
proof (cases "\<exists>m. mr_message rq = Some (JStr m) \<and> m \<noteq> [] \<and> js_trim ev m \<noteq> []")
  case False
  then have "\<And>m. mr_message rq = Some (JStr m) \<Longrightarrow> m = [] \<or> js_trim ev m = []" by blast
  from message_rejected[OF this, where py = py and d = d] show ?thesis
    by (simp add: eval_nat_numeral sent_def complete_Finished
          del: complete.simps add: complete.simps(2)[of "Suc (Suc (Suc (Suc (Suc 0))))"])
next
  case True
  then obtain m where m: "mr_message rq = Some (JStr m)" "m \<noteq> []" "js_trim ev m \<noteq> []"
    by blast
  obtain r1 d1 where u: "upsertUser ev d (sub_or_default (mr_sub rq)) = (r1, d1)"
    by (cases "upsertUser ev d (sub_or_default (mr_sub rq))")
  show ?thesis
  proof (cases r1)
    case (Inl e)
    with m u show ?thesis
      by (simp add: eval_nat_numeral step_def message_handler_def sent_def complete_Finished
            del: complete.simps add: complete.simps(2)[of "Suc (Suc (Suc (Suc (Suc 0))))"])
  next
    case r1: (Inr userId)
    have s0: "step ev (Message_request py rq) At_start d = (M_ensureSession m userId, d1)"
      using m u r1 by (simp add: step_def)
    have "complete 6 ev (Message_request py rq) At_start d =
            complete (Suc (Suc (Suc (Suc (Suc 0))))) ev (Message_request py rq)
              (M_ensureSession m userId) d1"
      using s0 by (simp add: eval_nat_numeral del: complete.simps
                     add: complete.simps(2)[of "Suc (Suc (Suc (Suc (Suc 0))))"])
    also have "\<dots> = sent (message_handler ev py d rq)"
      using m u r1
      by (subst message_from_session[OF message_from_log])
         (simp add: message_handler_def sent_def split: prod.splits sum.splits)
    finally show ?thesis .
  qed
qed

lemma run_alone:
  "run (replicate n 0) ([\<lparr>f_env = ev, f_request = r, f_pc = p\<rparr>], d) =
     (case complete n ev r p d of (p', d') \<Rightarrow> ([\<lparr>f_env = ev, f_request = r, f_pc = p'\<rparr>], d'))"
  by (induction n arbitrary: p d) (auto simp: resume_def split: prod.splits)

lemma confirm_handler_is_run:
  "run [0, 0, 0, 0, 0, 0] ([arrive ev (Confirm_request rq)], d) =
     ([\<lparr>f_env = ev, f_request = Confirm_request rq,
        f_pc = Finished (fst (confirm_handler ev d rq))\<rparr>],
      snd (confirm_handler ev d rq))"
proof -
  have "[0, 0, 0, 0, 0, 0] = replicate 6 (0::nat)" by (simp add: eval_nat_numeral)
  then show ?thesis
    using run_alone[of 6 ev "Confirm_request rq" At_start d] confirm_alone[of ev rq d]
    by (simp add: arrive_def sent_def del: run.simps complete.simps replicate.simps)
qed

lemma message_handler_is_run:
  "run [0, 0, 0, 0, 0, 0] ([arrive ev (Message_request py rq)], d) =
     ([\<lparr>f_env = ev, f_request = Message_request py rq,
        f_pc = Finished (fst (message_handler ev py d rq))\<rparr>],
      snd (message_handler ev py d rq))"
proof -
  have "[0, 0, 0, 0, 0, 0] = replicate 6 (0::nat)" by (simp add: eval_nat_numeral)
  then show ?thesis
    using run_alone[of 6 ev "Message_request py rq" At_start d] message_alone[of ev py rq d]
    by (simp add: arrive_def sent_def del: run.simps complete.simps replicate.simps)
qed


section \<open>Two confirmations of one slot in flight\<close>

text \<open>
  C2. Two confirmations of the same time arrive from two sessions. Both handlers run
  their conflict check before either inserts: both checks find no row. The first insert
  succeeds and is answered 200 confirmed; the second is rejected by the index
  \<open>uniq_confirmed_appointments\<close>, the handler's \<open>catch\<close> takes the rejection for a failure,
  and the request is answered with the 500 \<open>server_error\<close>, not with the 409 conflict. One
  appointment is stored.
\<close>

theorem concurrent_confirms_race:
  "map (map_option http_status \<circ> response_of)
       (fst (run [0, 0, 0, 0, 1, 1, 1, 1, 0, 0, 1] (two_confirms, empty_db)))
     = [Some 200, Some 500] \<and>
   response_of (fst (run [0, 0, 0, 0, 1, 1, 1, 1, 0, 0, 1] (two_confirms, empty_db)) ! 1)
     = Some server_error \<and>
   confirmed_keys (appointments (snd (run [0, 0, 0, 0, 1, 1, 1, 1, 0, 0, 1]
                                        (two_confirms, empty_db))))
     = [1917597600000]"
  by (simp add: eval_defs two_confirms_def confirmed_def server_error_def)


section \<open>Concrete runs\<close>

lemmas msg_eval = eval_defs ascii_trim_def is_space_def message_ok_def message_failed_def

lemmas ui_eval =
  latestProposal_def spread_def reverse_def array_find_def is_proposal_def scheduledTime_def
  spec_pending_proposal_def proposal_turn_def user_turn_def showConfirmationBar_def
  declineAppointment_def decline_outcome_def declineMessage_def response_ok_def demo_state_def

lemmas data_eval =
  demo_data_def assistantReply_def assistant_meta_def appointmentCandidate_def intent_of_def
  needsConfirmation_def js_or_def or_else_def js_nullish_def nullish_else_def

lemmas history_eval =
  reload_def history_handler_def loadConversationHistory_def formattedMessages_def
  sql_select_messages_def session_rows_def fresh_state_def

text \<open>
  The slot is taken: the 409 is decided by the handler's own conflict check, the last
  statement it sends, and when that query fails the request fails; no insert is sent.
\<close>

theorem conflict_detected_by_precheck:
  "fst (confirm_handler demo_env booked_db (confirm_of ''session-b'' ''2030-10-07T10:00:00Z''))
     = conflict \<and>
   statements (snd (confirm_handler demo_env booked_db
                      (confirm_of ''session-b'' ''2030-10-07T10:00:00Z'')))
     = statements booked_db @ [Q_upsertUser, Q_findSession, Q_insertSession, Q_conflictCheck] \<and>
   fst (confirm_handler (demo_env\<lparr>faults := (\<lambda>q. q = Q_conflictCheck)\<rparr>) booked_db
          (confirm_of ''session-b'' ''2030-10-07T10:00:00Z''))
     = server_error"
  by (simp add: eval_defs booked_db_def)

theorem booked_slot_conflict_witness:
  "fst (confirm_handler demo_env booked_db (confirm_of ''session-b'' ''2030-10-07T10:00:00Z''))
     = conflict \<and>
   appointments (snd (confirm_handler demo_env booked_db
                        (confirm_of ''session-b'' ''2030-10-07T10:00:00Z'')))
     = appointments booked_db"
  using booked_slot_conflict
    [where ev = demo_env and d = booked_db and s = "''2030-10-07T10:00:00Z''"
       and rq = "confirm_of ''session-b'' ''2030-10-07T10:00:00Z''" and t = 1917597600000]
  by (simp add: eval_defs booked_db_def)

text \<open>A decline from a session not seen before creates the user and the session row.\<close>

theorem decline_creates_rows:
  "map session_token (chat_sessions (snd (confirm_handler demo_env empty_db
       (decline_of ''session-a'' ''2030-10-07T10:00:00Z'')))) = [''session-a''] \<and>
   map email (users (snd (confirm_handler demo_env empty_db
       (decline_of ''session-a'' ''2030-10-07T10:00:00Z'')))) = [''user_1@demo.local''] \<and>
   chat_sessions empty_db = [] \<and> users empty_db = []"
  by (simp add: eval_defs)

theorem decline_leaves_appointments_witness:
  "appointments (snd (confirm_handler demo_env booked_db
       (decline_of ''session-b'' ''2030-10-07T10:00:00Z''))) = appointments booked_db \<and>
   confirmed_keys (appointments booked_db) = [1917597600000]"
  using decline_leaves_appointments
    [where ev = demo_env and d = booked_db
       and rq = "decline_of ''session-b'' ''2030-10-07T10:00:00Z''"]
  by (simp add: eval_defs booked_db_def)

text \<open>The service cannot be reached: the user's turn is stored, no assistant turn follows.\<close>

theorem service_failure_leaves_user_turn:
  "http_status (fst (message_handler demo_env Py_unreachable empty_db
      (message_of ''session-a'' ''Monday at 10am please''))) = 500 \<and>
   map cm_role (chat_messages (snd (message_handler demo_env Py_unreachable empty_db
      (message_of ''session-a'' ''Monday at 10am please'')))) = [''user'']"
  by (simp add: msg_eval)

theorem message_appends_turns_witness:
  "\<exists>userId.
     fst (message_handler demo_env (Py_json demo_data) empty_db
            (message_of ''session-a'' ''  Monday at 10am please '')) = message_ok demo_data \<and>
     chat_messages (snd (message_handler demo_env (Py_json demo_data) empty_db
            (message_of ''session-a'' ''  Monday at 10am please ''))) =
       chat_messages empty_db @
         [user_turn_row userId ''session-a'' ''Monday at 10am please'',
          assistant_turn_row userId ''session-a'' demo_data]"
  using message_appends_turns
    [where ev = demo_env and d = empty_db and py = "Py_json demo_data"
       and rq = "message_of ''session-a'' ''  Monday at 10am please ''"
       and m = "''  Monday at 10am please ''" and tok = "''session-a''"]
  by (simp add: message_of_def demo_env_def ascii_trim_def is_space_def)

text \<open>
  Every insert into \<open>chat_messages\<close> fails: the message is answered 200 and the
  confirmation 200, and no turn is stored.
\<close>

theorem failed_append_reports_success:
  "http_status (fst (message_handler (demo_env\<lparr>faults := log_faults\<rparr>) (Py_json demo_data)
      empty_db (message_of ''session-a'' ''Monday at 10am please''))) = 200 \<and>
   chat_messages (snd (message_handler (demo_env\<lparr>faults := log_faults\<rparr>) (Py_json demo_data)
      empty_db (message_of ''session-a'' ''Monday at 10am please''))) = [] \<and>
   http_status (fst (confirm_handler (demo_env\<lparr>faults := log_faults\<rparr>) empty_db
      (confirm_of ''session-a'' ''2030-10-07T10:00:00Z''))) = 200 \<and>
   chat_messages (snd (confirm_handler (demo_env\<lparr>faults := log_faults\<rparr>) empty_db
      (confirm_of ''session-a'' ''2030-10-07T10:00:00Z''))) = []"
  by (simp add: msg_eval log_faults_def confirmed_def)

theorem failed_append_is_swallowed_witness:
  "fst (message_handler (demo_env\<lparr>faults := log_faults\<rparr>) (Py_json demo_data) empty_db
          (message_of ''session-a'' ''Monday at 10am please'')) = message_ok demo_data \<and>
   chat_messages (snd (message_handler (demo_env\<lparr>faults := log_faults\<rparr>) (Py_json demo_data)
          empty_db (message_of ''session-a'' ''Monday at 10am please''))) = [] \<and>
   fst (message_handler demo_env (Py_json demo_data) empty_db
          \<lparr>mr_sub = Some ''user_1'', mr_message = Some (JStr ''Monday at 10am please''),
           mr_session_id = None\<rparr>) = message_ok demo_data \<and>
   chat_messages (snd (message_handler demo_env (Py_json demo_data) empty_db
          \<lparr>mr_sub = Some ''user_1'', mr_message = Some (JStr ''Monday at 10am please''),
           mr_session_id = None\<rparr>)) = [] \<and>
   (\<exists>a. appointments (snd (confirm_handler demo_env empty_db
             (confirm_of ''session-a'' ''2030-10-07T10:00:00Z''))) = appointments empty_db @ [a] \<and>
        status a = Confirmed)"
  using failed_append_is_swallowed
    [where ev = "demo_env\<lparr>faults := log_faults\<rparr>" and d = empty_db and data = demo_data
       and rq = "message_of ''session-a'' ''Monday at 10am please''"
       and m = "''Monday at 10am please''"
       and ev' = demo_env and d' = empty_db
       and crq = "confirm_of ''session-a'' ''2030-10-07T10:00:00Z''"]
    failed_append_is_swallowed
    [where ev = demo_env and d = empty_db and data = demo_data
       and rq = "\<lparr>mr_sub = Some ''user_1'', mr_message = Some (JStr ''Monday at 10am please''),
                   mr_session_id = None\<rparr>"
       and m = "''Monday at 10am please''"
       and ev' = demo_env and d' = empty_db
       and crq = "confirm_of ''session-a'' ''2030-10-07T10:00:00Z''"]
  by (simp add: msg_eval log_faults_def confirmed_def)

text \<open>The backend times out on \<open>Hello\<close>: the answer is the deterministic strategy's.\<close>

theorem backend_failure_falls_back_witness:
  "fst (message_handler demo_env (simulate demo_det Generative Backend_timeout ''Hello'')
          empty_db (message_of ''session-a'' '' Hello '')) =
     \<lparr>http_status = 200,
      body = JObj [(''ok'', JBool True),
                   (''data'',
                    JObj [(''reply'', JStr ''When would you like to come in?''),
                          (''intent'', JStr ''chat''),
                          (''appointment_candidate'', JNull),
                          (''needs_confirmation'', JBool False),
                          (''confidence_percent'', JNum 60),
                          (''mode'', JStr ''fallback'')])]\<rparr>"
  using backend_failure_falls_back
    [where ev = demo_env and d = empty_db and backend = Backend_timeout and det = demo_det
       and rq = "message_of ''session-a'' '' Hello ''" and m = "'' Hello ''"]
  by (simp add: message_of_def demo_env_def ascii_trim_def is_space_def demo_det_def
        intent_name_def)

text \<open>
  Where the confirmation bar is hidden the scan is not run. There the message it would
  find can differ from the specification's: an older proposal carries
  \<open>needs_confirmation\<close>, a newer candidate does not.
\<close>

lemma scan_where_bar_hidden:
  "\<not> showConfirmationBar [proposal_turn ''2030-10-07T10:00:00Z'' True,
                            proposal_turn ''2025-10-07T10:00:00Z'' False] \<and>
   scheduledTime (fst (latestProposal
      [[proposal_turn ''2030-10-07T10:00:00Z'' True,
        proposal_turn ''2025-10-07T10:00:00Z'' False]] 0))
     = Some (JStr ''2025-10-07T10:00:00Z'') \<and>
   scheduledTime (spec_pending_proposal
      [proposal_turn ''2030-10-07T10:00:00Z'' True,
       proposal_turn ''2025-10-07T10:00:00Z'' False])
     = Some (JStr ''2030-10-07T10:00:00Z'')"
  by (simp add: ui_eval)


text \<open>
  The assistant has proposed a time and the component has loaded the history: the bar is
  shown. The user declines and the insert of the decline turn fails.
\<close>

lemma proposed_db_messages:
  "chat_messages proposed_db =
     [\<lparr>cm_user_id = 1, cm_session_token = ''session-a'', cm_role = ''user'',
       cm_content = JStr ''Monday at 10am please'', cm_meta = JObj []\<rparr>,
      \<lparr>cm_user_id = 1, cm_session_token = ''session-a'', cm_role = ''assistant'',
       cm_content = JStr ''I can book you for Monday at 10am'',
       cm_meta = JObj [(''appointment_candidate'', JStr ''2030-10-07T10:00:00Z''),
                       (''intent'', JStr ''propose''), (''needs_confirmation'', JBool True)]\<rparr>] \<and>
   map email (users proposed_db) = [''user_1@demo.local''] \<and>
   map user_id (users proposed_db) = [1]"
  by (simp add: proposed_db_def msg_eval data_eval)

lemma loaded_state_eval:
  "loaded_state =
     \<lparr>token = ''jwt'', sessionId = ''session-a'',
      messages =
        [\<lparr>role = ''user'', content = JStr ''Monday at 10am please'', meta = Some (JObj []),
          sent_at = None\<rparr>,
         \<lparr>role = ''assistant'', content = JStr ''I can book you for Monday at 10am'',
          meta = Some (JObj [(''appointment_candidate'', JStr ''2030-10-07T10:00:00Z''),
                             (''intent'', JStr ''propose''),
                             (''needs_confirmation'', JBool True)]),
          sent_at = None\<rparr>],
      loading = False\<rparr>"
  by (simp add: loaded_state_def history_eval proposed_db_def msg_eval data_eval)

lemma declined_state_eval:
  "messages declined_state =
     messages loaded_state @ [declineMessage ''2026-11-03T09:00:00.000Z''] \<and>
   token declined_state = ''jwt'' \<and> sessionId declined_state = ''session-a''"
  by (simp add: declined_state_def loaded_state_eval declineAppointment_def is_proposal_def
        decline_outcome_def response_ok_def declined_def)

lemma reloaded_state_eval: "messages reloaded_state = messages loaded_state"
  by (simp add: reloaded_state_def reload_def declined_state_eval declined_db_def
        decline_fault_env_def proposed_db_def history_eval msg_eval data_eval loaded_state_eval)

text \<open>
  The response is \<open>declined\<close> and the component hides the bar; the store holds no decline
  turn, and after a reload the bar is shown again for the declined proposal.
\<close>

theorem unstored_decline_lingers:
  "showConfirmationBar (messages loaded_state) \<and>
   fst (confirm_handler decline_fault_env proposed_db
          (decline_of ''session-a'' ''2030-10-07T10:00:00Z'')) = declined \<and>
   \<not> showConfirmationBar (messages declined_state) \<and>
   chat_messages declined_db = chat_messages proposed_db \<and>
   showConfirmationBar (messages reloaded_state) \<and>
   scheduledTime (fst (latestProposal [messages reloaded_state] 0))
     = Some (JStr ''2030-10-07T10:00:00Z'')"
proof -
  have "fst (confirm_handler decline_fault_env proposed_db
          (decline_of ''session-a'' ''2030-10-07T10:00:00Z'')) = declined \<and>
        chat_messages declined_db = chat_messages proposed_db"
    by (simp add: declined_db_def decline_fault_env_def proposed_db_def msg_eval data_eval)
  then show ?thesis
    by (simp add: reloaded_state_eval declined_state_eval loaded_state_eval ui_eval)
qed

theorem decline_hides_confirmation_bar_witness:
  "showConfirmationBar (messages loaded_state) \<and>
   \<not> showConfirmationBar (messages declined_state) \<and>
   fst (confirm_handler demo_env proposed_db
          (decline_of ''session-a'' ''2030-10-07T10:00:00Z'')) = declined \<and>
   \<not> showConfirmationBar
       (messages (reload demo_env
                   (snd (confirm_handler demo_env proposed_db
                           (decline_of ''session-a'' ''2030-10-07T10:00:00Z'')))
                   (Some ''user_1'') declined_state))"
proof -
  have h1: "token loaded_state \<noteq> []" "sessionId loaded_state = ''session-a''"
    by (simp_all add: loaded_state_eval)
  have h2: "showConfirmationBar (messages loaded_state)"
    by (simp add: loaded_state_eval showConfirmationBar_def)
  have h3: "\<not> truthy (cr_confirm (decline_of ''session-a'' ''2030-10-07T10:00:00Z''))"
    "cr_session_id (decline_of ''session-a'' ''2030-10-07T10:00:00Z'') = Some ''session-a''"
    "validate_confirm demo_env (decline_of ''session-a'' ''2030-10-07T10:00:00Z'')
       = Inr ''2030-10-07T10:00:00Z''"
    by (simp_all add: eval_defs)
  have h4: "\<not> faults demo_env Q_upsertUser" "\<not> faults demo_env Q_findSession"
    "\<not> faults demo_env Q_insertSession" "\<not> faults demo_env Q_logDecline"
    by (simp_all add: demo_env_def)
  have h5: "fst (history_handler demo_env proposed_db
                   (cr_sub (decline_of ''session-a'' ''2030-10-07T10:00:00Z'')) ''session-a'')
              = History_ok (chat_messages proposed_db)"
    by (simp add: proposed_db_def history_eval msg_eval data_eval)
  have sub: "cr_sub (decline_of ''session-a'' ''2030-10-07T10:00:00Z'') = Some ''user_1''"
    by (simp add: decline_of_def)
  from decline_hides_confirmation_bar
         [OF h1 h2 h3 h4(1-3) h5, where now = "''2026-11-03T09:00:00.000Z''"
            and r = "Fetch_response 200 (body declined)"]
  have "\<not> showConfirmationBar (messages declined_state) \<and>
        fst (confirm_handler demo_env proposed_db
               (decline_of ''session-a'' ''2030-10-07T10:00:00Z'')) = declined \<and>
        (\<not> faults demo_env Q_logDecline \<longrightarrow>
           \<not> showConfirmationBar
               (messages (reload demo_env
                   (snd (confirm_handler demo_env proposed_db
                           (decline_of ''session-a'' ''2030-10-07T10:00:00Z'')))
                   (cr_sub (decline_of ''session-a'' ''2030-10-07T10:00:00Z''))
                   declined_state)))"
    unfolding declined_state_def by blast
  with h2 h4(4) sub show ?thesis by simp
qed

end
